theory Spec2Isabelle
  imports Main
begin

section \<open>JavaScript values\<close>

text \<open>
  The handler, the control bus and the script runner are JavaScript. The values that travel
  through them are modelled by the datatype \<open>jsval\<close>: \<open>undefined\<close>, \<open>null\<close>, booleans,
  numbers and strings. Strings are lists of \<open>char\<close>, so the model covers the code units
  0 to 255.

  A finite number is kept as a decimal fraction: \<open>Dec m k\<close> stands for \<open>m / 10 ^ k\<close>, with
  \<open>k = 0\<close> or the last digit of \<open>m\<close> not zero, so that equal numbers are equal terms. Every
  numeric literal has such a value. Rounding to binary64, overflow to \<open>Infinity\<close> and the sign
  of zero are not represented. The request counter of the director bridge is a natural number;
  it agrees with the JavaScript counter for the first \<open>2 ^ 53\<close> requests of a bridge.
\<close>

datatype jsnum = NaN | PosInfinity | NegInfinity | Dec int nat

datatype jsval = JUndefined | JNull | JBool bool | JNum jsnum | JStr string

text \<open>
  An object with primitive properties, such as a parameter mapping, is the list of its own
  properties in insertion order.
\<close>

type_synonym params = "(string \<times> jsval) list"

fun norm_dec :: "int \<Rightarrow> nat \<Rightarrow> jsnum" where
  "norm_dec m k = (if k = 0 \<or> m mod 10 \<noteq> 0 then Dec m k else norm_dec (m div 10) (k - 1))"

declare norm_dec.simps [simp del]

definition num_of_int :: "int \<Rightarrow> jsval" where
  "num_of_int i = JNum (Dec i 0)"

subsection \<open>Characters and digits\<close>

definition is_space :: "char \<Rightarrow> bool" where
  \<comment> \<open>the characters of the regular expression class \<open>\s\<close>, which are also those removed by \<open>trim\<close>\<close>
  "is_space c = ((of_char c :: nat) \<in> {9, 10, 11, 12, 13, 32, 160})"

definition is_digit :: "char \<Rightarrow> bool" where
  "is_digit c = (48 \<le> (of_char c :: nat) \<and> (of_char c :: nat) \<le> 57)"

definition hex_val :: "char \<Rightarrow> nat option" where
  "hex_val c = (let n = (of_char c :: nat) in
     if 48 \<le> n \<and> n \<le> 57 then Some (n - 48)
     else if 65 \<le> n \<and> n \<le> 70 then Some (n - 55)
     else if 97 \<le> n \<and> n \<le> 102 then Some (n - 87)
     else None)"

definition digit_in_base :: "nat \<Rightarrow> char \<Rightarrow> bool" where
  "digit_in_base b c = (case hex_val c of None \<Rightarrow> False | Some d \<Rightarrow> d < b)"

definition digits_val :: "nat \<Rightarrow> string \<Rightarrow> nat" where
  "digits_val b ds = foldl (\<lambda>acc c. acc * b + (case hex_val c of None \<Rightarrow> 0 | Some d \<Rightarrow> d)) 0 ds"

definition trim :: "string \<Rightarrow> string" where
  "trim s = rev (dropWhile is_space (rev (dropWhile is_space s)))"

subsection \<open>\<open>Number(string)\<close> and \<open>isNaN(string)\<close>\<close>

definition parse_exponent :: "string \<Rightarrow> int option" where
  \<comment> \<open>what follows the \<open>e\<close> of an exponent part: an optional sign and at least one digit\<close>
  "parse_exponent s =
     (let (neg, ds) = (case s of [] \<Rightarrow> (False, s)
                       | c # r \<Rightarrow> if c = CHR ''-'' then (True, r)
                                 else if c = CHR ''+'' then (False, r) else (False, s))
      in if ds \<noteq> [] \<and> list_all is_digit ds
         then Some (if neg then - int (digits_val 10 ds) else int (digits_val 10 ds))
         else None)"

definition unsigned_decimal :: "string \<Rightarrow> (int \<times> int) option" where
  \<comment> \<open>digits, an optional fraction and an optional exponent, with a digit on one side of the
      point at least; the result \<open>(m, e)\<close> stands for \<open>m * 10 ^ e\<close>\<close>
  "unsigned_decimal s =
     (let ip = takeWhile is_digit s; r1 = dropWhile is_digit s;
          (fp, r2) = (case r1 of [] \<Rightarrow> ([], [])
                      | c # t \<Rightarrow> if c = CHR ''.'' then (takeWhile is_digit t, dropWhile is_digit t)
                                else ([], r1));
          ex = (case r2 of [] \<Rightarrow> Some 0
                | c # t \<Rightarrow> if c = CHR ''e'' \<or> c = CHR ''E'' then parse_exponent t else None)
      in if ip = [] \<and> fp = [] then None
         else case ex of None \<Rightarrow> None
              | Some e \<Rightarrow> Some (int (digits_val 10 (ip @ fp)), e - int (length fp)))"

definition mk_dec :: "int \<Rightarrow> int \<Rightarrow> jsnum" where
  "mk_dec m e = (if 0 \<le> e then Dec (m * 10 ^ nat e) 0 else norm_dec m (nat (- e)))"

definition radix_literal :: "string \<Rightarrow> jsnum option" where
  \<comment> \<open>\<open>0x\<close>, \<open>0o\<close> and \<open>0b\<close> literals; \<open>None\<close> when the string has no such prefix\<close>
  "radix_literal t =
     (case t of
        c0 # c1 # ds \<Rightarrow>
          (let b = (if c1 = CHR ''x'' \<or> c1 = CHR ''X'' then 16
                    else if c1 = CHR ''o'' \<or> c1 = CHR ''O'' then 8
                    else if c1 = CHR ''b'' \<or> c1 = CHR ''B'' then 2 else (0::nat))
           in if c0 = CHR ''0'' \<and> b \<noteq> 0
              then Some (if ds \<noteq> [] \<and> list_all (digit_in_base b) ds
                         then Dec (int (digits_val b ds)) 0 else NaN)
              else None)
      | _ \<Rightarrow> None)"

definition str_to_number :: "string \<Rightarrow> jsnum" where
  \<comment> \<open>\<open>Number(s)\<close> for a string \<open>s\<close>\<close>
  "str_to_number s =
     (let t = trim s in
      if t = [] then Dec 0 0
      else case radix_literal t of
        Some n \<Rightarrow> n
      | None \<Rightarrow>
         (let (neg, u) = (if hd t = CHR ''-'' then (True, tl t)
                          else if hd t = CHR ''+'' then (False, tl t) else (False, t))
          in if u = ''Infinity'' then (if neg then NegInfinity else PosInfinity)
             else case unsigned_decimal u of
               None \<Rightarrow> NaN
             | Some (m, e) \<Rightarrow> mk_dec (if neg then - m else m) e))"

definition isNaN_str :: "string \<Rightarrow> bool" where
  "isNaN_str s = (str_to_number s = NaN)"

subsection \<open>Conversion to string, truthiness, comparison\<close>

definition digit_char :: "nat \<Rightarrow> char" where
  "digit_char d = ''0123456789'' ! d"

function nat_digits :: "nat \<Rightarrow> string" where
  "nat_digits n = (if n < 10 then [digit_char n]
                   else nat_digits (n div 10) @ [digit_char (n mod 10)])"
  by pat_completeness auto
termination
  by (relation "measure id") auto

declare nat_digits.simps [simp del]

definition num_to_string :: "jsnum \<Rightarrow> string" where
  \<comment> \<open>the decimal expansion; JavaScript prints the same for the numbers it does not print
      in exponent notation\<close>
  "num_to_string n =
     (case n of
        NaN \<Rightarrow> ''NaN''
      | PosInfinity \<Rightarrow> ''Infinity''
      | NegInfinity \<Rightarrow> ''-Infinity''
      | Dec m k \<Rightarrow>
          (let a = nat \<bar>m\<bar>; ip = nat_digits (a div 10 ^ k); fp = nat_digits (a mod 10 ^ k)
           in (if m < 0 then ''-'' else []) @ ip @
              (if k = 0 then [] else ''.'' @ replicate (k - length fp) (CHR ''0'') @ fp)))"

fun to_string :: "jsval \<Rightarrow> string" where
  "to_string JUndefined = ''undefined''"
| "to_string JNull = ''null''"
| "to_string (JBool b) = (if b then ''true'' else ''false'')"
| "to_string (JNum n) = num_to_string n"
| "to_string (JStr s) = s"

fun truthy :: "jsval \<Rightarrow> bool" where
  "truthy JUndefined = False"
| "truthy JNull = False"
| "truthy (JBool b) = b"
| "truthy (JNum n) = (n \<noteq> NaN \<and> n \<noteq> Dec 0 0)"
| "truthy (JStr s) = (s \<noteq> [])"

definition or_else :: "jsval \<Rightarrow> jsval \<Rightarrow> jsval" where
  \<comment> \<open>the operator \<open>||\<close>\<close>
  "or_else a b = (if truthy a then a else b)"

fun to_number :: "jsval \<Rightarrow> jsnum" where
  "to_number JUndefined = NaN"
| "to_number JNull = Dec 0 0"
| "to_number (JBool b) = (if b then Dec 1 0 else Dec 0 0)"
| "to_number (JNum n) = n"
| "to_number (JStr s) = str_to_number s"

fun num_less :: "jsnum \<Rightarrow> jsnum \<Rightarrow> bool" where
  "num_less NaN _ = False"
| "num_less _ NaN = False"
| "num_less PosInfinity _ = False"
| "num_less _ PosInfinity = True"
| "num_less _ NegInfinity = False"
| "num_less NegInfinity _ = True"
| "num_less (Dec m k) (Dec n l) = (m * 10 ^ l < n * 10 ^ k)"

definition get_prop :: "params \<Rightarrow> string \<Rightarrow> jsval" where
  \<comment> \<open>reading a property; an absent property reads as \<open>undefined\<close>\<close>
  "get_prop ps k = (case map_of ps k of None \<Rightarrow> JUndefined | Some v \<Rightarrow> v)"

fun put_prop :: "string \<Rightarrow> jsval \<Rightarrow> params \<Rightarrow> params" where
  "put_prop k v [] = [(k, v)]"
| "put_prop k v ((k', v') # ps) = (if k = k' then (k, v) # ps else (k', v') # put_prop k v ps)"

definition set_prop :: "string \<Rightarrow> jsval \<Rightarrow> params \<Rightarrow> params" where
  \<comment> \<open>the assignment \<open>obj[key] = value\<close> on a plain object with a primitive value; assigning a
      primitive to \<open>__proto__\<close> changes nothing\<close>
  "set_prop k v ps = (if k = ''__proto__'' then ps else put_prop k v ps)"

section \<open>The command parser\<close>

text \<open>\<open>MiniPaintRexxHandler.parseCommand\<close>, with \<open>String.prototype.split\<close> for the separators it uses.\<close>

fun split_ws :: "string \<Rightarrow> string list" where
  \<comment> \<open>\<open>s.split(/\s+/)\<close>\<close>
  "split_ws [] = [[]]"
| "split_ws (c # cs) =
     (if is_space c
      then (case cs of [] \<Rightarrow> [] # split_ws cs
            | d # _ \<Rightarrow> if is_space d then split_ws cs else [] # split_ws cs)
      else (case split_ws cs of [] \<Rightarrow> [[c]] | t # ts \<Rightarrow> (c # t) # ts))"

fun split_eq :: "string \<Rightarrow> string list" where
  \<comment> \<open>\<open>s.split('=')\<close>\<close>
  "split_eq [] = [[]]"
| "split_eq (c # cs) =
     (if c = CHR ''='' then [] # split_eq cs
      else (case split_eq cs of [] \<Rightarrow> [[c]] | t # ts \<Rightarrow> (c # t) # ts))"

definition coerce :: "string \<Rightarrow> jsval" where
  "coerce v =
     (if v = ''true'' then JBool True
      else if v = ''false'' then JBool False
      else if \<not> isNaN_str v \<and> v \<noteq> [] then JNum (str_to_number v)
      else JStr v)"

definition parse_token :: "params \<Rightarrow> string \<Rightarrow> params" where
  \<comment> \<open>the body of the loop: \<open>const [key, value] = parts[i].split('=')\<close> and the assignment\<close>
  "parse_token ps tok =
     (case split_eq tok of
        key # v # _ \<Rightarrow> if key \<noteq> [] then set_prop key (coerce v) ps else ps
      | _ \<Rightarrow> ps)"

definition parseCommand :: "string \<Rightarrow> string \<times> params" where
  "parseCommand commandString =
     (let parts = split_ws (trim commandString)
      in (hd parts, foldl parse_token [] (tl parts)))"


subsection \<open>\<open>JSON.stringify\<close> and \<open>Array.prototype.join\<close>\<close>

definition hex_char :: "nat \<Rightarrow> char" where
  "hex_char d = ''0123456789abcdef'' ! d"

definition json_char :: "char \<Rightarrow> string" where
  "json_char c = (let n = (of_char c :: nat) in
     if n = 34 then [CHR 0x5C, CHR 0x22]
     else if n = 92 then [CHR 0x5C, CHR 0x5C]
     else if n = 8 then [CHR 0x5C, CHR ''b'']
     else if n = 9 then [CHR 0x5C, CHR ''t'']
     else if n = 10 then [CHR 0x5C, CHR ''n'']
     else if n = 12 then [CHR 0x5C, CHR ''f'']
     else if n = 13 then [CHR 0x5C, CHR ''r'']
     else if n < 32 then [CHR 0x5C, CHR ''u'', CHR ''0'', CHR ''0'', hex_char (n div 16), hex_char (n mod 16)]
     else [c])"

definition json_quote :: "string \<Rightarrow> string" where
  "json_quote s = [CHR 0x22] @ concat (map json_char s) @ [CHR 0x22]"

fun json_value :: "jsval \<Rightarrow> string option" where
  \<comment> \<open>\<open>None\<close> for \<open>undefined\<close>, which \<open>JSON.stringify\<close> leaves out of an object\<close>
  "json_value JUndefined = None"
| "json_value JNull = Some ''null''"
| "json_value (JBool b) = Some (if b then ''true'' else ''false'')"
| "json_value (JNum n) = Some (case n of Dec m k \<Rightarrow> num_to_string n | _ \<Rightarrow> ''null'')"
| "json_value (JStr s) = Some (json_quote s)"

fun join_with :: "string \<Rightarrow> string list \<Rightarrow> string" where
  "join_with sep [] = []"
| "join_with sep [x] = x"
| "join_with sep (x # y # ys) = x @ sep @ join_with sep (y # ys)"

definition json_object :: "params \<Rightarrow> string" where
  "json_object ps =
     ''{'' @ join_with '','' (concat (map (\<lambda>(k, v). case json_value v of None \<Rightarrow> []
                                              | Some j \<Rightarrow> [json_quote k @ '':'' @ j]) ps)) @ ''}''"

definition json_array :: "string list \<Rightarrow> string" where
  "json_array items = ''['' @ join_with '','' items @ '']''"

definition join_element :: "jsval \<Rightarrow> string" where
  \<comment> \<open>an element under \<open>join\<close>: \<open>undefined\<close> and \<open>null\<close> give the empty string\<close>
  "join_element v = (if v = JUndefined \<or> v = JNull then [] else to_string v)"

section \<open>The editor, as the handler sees it\<close>

text \<open>
  The application object \<open>app\<close> is imported, not defined, by the handler. The handler reads
  its components \<open>Layers\<close>, \<open>Actions\<close>, \<open>FileOpen\<close>, \<open>FileSave\<close> and \<open>State\<close>, tests
  whether a function is there, and calls it. A component or function that is not there is
  \<open>None\<close>. A call either returns or throws; a rejected promise under \<open>await\<close> is a throw.
  A thrown value is \<open>undefined\<close> or \<open>null\<close>, or any other value, given by the value of its
  \<open>message\<close> property (\<open>undefined\<close> when it has none).
\<close>

datatype thrown = Nullish | Thrown jsval

datatype 'a call = Returns 'a | Throws thrown

text \<open>
  The words of the \<open>TypeError\<close> messages belong to the JavaScript engine. They are parameters
  of the model: the message for reading a property of \<open>undefined\<close> or \<open>null\<close>, for calling a
  value that is not a function, and for calling the method of \<open>Object.prototype\<close> of a given
  name without a receiver.
\<close>

record engine =
  read_of_nullish :: string
  not_a_function :: string
  no_receiver :: "string \<Rightarrow> string"

record layers =
  Layers_addLayer :: "(jsval \<Rightarrow> jsval option call) option"
  Layers_deleteLayer :: "(jsval \<Rightarrow> unit call) option"
  Layers_mergeLayers :: "unit call option"
  Layers_setOpacity :: "(jsval \<Rightarrow> jsval \<Rightarrow> unit call) option"
  Layers_getLayerList :: "params list call option"
  Layers_getLayerCount :: "jsval call option"
  Layers_getCurrentLayer :: "jsval call option"

record image_actions =
  Image_resize :: "(jsval \<Rightarrow> jsval \<Rightarrow> unit call) option"
  Image_rotate :: "(jsval \<Rightarrow> unit call) option"
  Image_flip :: "(jsval \<Rightarrow> unit call) option"
  Image_crop :: "(jsval \<Rightarrow> jsval \<Rightarrow> jsval \<Rightarrow> jsval \<Rightarrow> unit call) option"
  Image_newImage :: "(jsval \<Rightarrow> jsval \<Rightarrow> unit call) option"

record actions =
  Actions_Image :: "image_actions option"
  Actions_Filters :: "(string \<Rightarrow> (params \<Rightarrow> unit call) option) option"

record file_open =
  FileOpen_readImageFile :: bool

record file_save =
  FileSave_saveFile :: "(jsval \<Rightarrow> jsval \<Rightarrow> unit call) option"

record state =
  State_getCanvasSize :: "(jsval \<times> jsval) call option"
  State_getImageData :: "jsval call option"
  State_undo :: "unit call option"
  State_redo :: "unit call option"
  State_canvas :: "(jsval \<times> jsval) option"

record app =
  Layers :: "layers option"
  Actions :: "actions option"
  FileOpen :: "file_open option"
  FileSave :: "file_save option"
  State :: "state option"

text \<open>
  \<open>addLayer\<close> returns a layer: \<open>None\<close> when the value is falsy, otherwise the value of its
  \<open>id\<close>. \<open>getCanvasSize\<close> returns the \<open>width\<close> and the \<open>height\<close> of the object it gives,
  \<open>canvas\<close> likewise. \<open>getLayerList\<close> returns an array of objects.
\<close>

definition image_of :: "app \<Rightarrow> image_actions option" where
  \<comment> \<open>\<open>app.Actions && app.Actions.Image\<close>\<close>
  "image_of a = (case Actions a of None \<Rightarrow> None | Some acts \<Rightarrow> Actions_Image acts)"

definition filters_of :: "app \<Rightarrow> (string \<Rightarrow> (params \<Rightarrow> unit call) option) option" where
  \<comment> \<open>\<open>app.Actions && app.Actions.Filters\<close>\<close>
  "filters_of a = (case Actions a of None \<Rightarrow> None | Some acts \<Rightarrow> Actions_Filters acts)"

section \<open>The command handler\<close>

text \<open>
  \<open>MiniPaintRexxHandler\<close>. A handler returns an object; \<open>ok_obj\<close> and \<open>fail_obj\<close> are the
  two object literals that the handlers return most.
\<close>

definition ok_obj :: "string \<Rightarrow> params" where
  \<comment> \<open>\<open>{ success: true, output: msg }\<close>\<close>
  "ok_obj msg = [(''success'', JBool True), (''output'', JStr msg)]"

definition ok_result :: "string \<Rightarrow> jsval \<Rightarrow> params" where
  \<comment> \<open>\<open>{ success: true, output: msg, result: r }\<close>\<close>
  "ok_result msg r = [(''success'', JBool True), (''output'', JStr msg), (''result'', r)]"

definition fail_obj :: "int \<Rightarrow> string \<Rightarrow> params" where
  \<comment> \<open>\<open>{ success: false, errorCode: code, output: msg }\<close>\<close>
  "fail_obj code msg =
     [(''success'', JBool False), (''errorCode'', num_of_int code), (''output'', JStr msg)]"

definition handler_catch :: "engine \<Rightarrow> int \<Rightarrow> params call \<Rightarrow> params call" where
  \<comment> \<open>\<open>try { ... } catch (error) { return { success: false, errorCode: code, output: error.message } }\<close>;
      reading \<open>message\<close> of \<open>undefined\<close> or \<open>null\<close> throws in the catch block\<close>
  "handler_catch eng code body =
     (case body of
        Returns r \<Rightarrow> Returns r
      | Throws Nullish \<Rightarrow> Throws (Thrown (JStr (read_of_nullish eng)))
      | Throws (Thrown m) \<Rightarrow>
          Returns [(''success'', JBool False), (''errorCode'', num_of_int code), (''output'', m)])"

definition and_then :: "'a call \<Rightarrow> ('a \<Rightarrow> 'b call) \<Rightarrow> 'b call" where
  \<comment> \<open>a call followed by the rest of the block\<close>
  "and_then c f = (case c of Throws e \<Rightarrow> Throws e | Returns x \<Rightarrow> f x)"

definition validEffects :: "string list" where
  "validEffects = [''blur'', ''sharpen'', ''emboss'', ''sepia'', ''invert'', ''posterize'',
                   ''grayscale'', ''brightness'', ''contrast'', ''saturation'']"

definition openImage :: "engine \<Rightarrow> app \<Rightarrow> params \<Rightarrow> params call" where
  "openImage eng a ps = handler_catch eng 19
     (let file = get_prop ps ''file'' in
      if \<not> truthy file then Returns (fail_obj 10 ''file parameter required'')
      else if (case FileOpen a of None \<Rightarrow> False | Some fo \<Rightarrow> FileOpen_readImageFile fo)
      then Returns (ok_obj (''Loaded image: '' @ to_string file))
      else Returns (fail_obj 11 ''FileOpen not available''))"

definition resize :: "engine \<Rightarrow> app \<Rightarrow> params \<Rightarrow> params call" where
  "resize eng a ps = handler_catch eng 29
     (let width = get_prop ps ''width''; height = get_prop ps ''height'' in
      if \<not> truthy width \<or> \<not> truthy height
      then Returns (fail_obj 20 ''width and height parameters required'')
      else case (case image_of a of None \<Rightarrow> None | Some im \<Rightarrow> Image_resize im) of
        Some f \<Rightarrow> and_then (f width height)
          (\<lambda>_. Returns (ok_obj (''Resized to '' @ to_string width @ ''x'' @ to_string height)))
      | None \<Rightarrow> Returns (fail_obj 21 ''Resize action not available''))"

definition rotate_image :: "engine \<Rightarrow> app \<Rightarrow> params \<Rightarrow> params call" where
  \<comment> \<open>the handler \<open>rotate\<close>\<close>
  "rotate_image eng a ps = handler_catch eng 39
     (let angle = get_prop ps ''angle'' in
      if angle = JUndefined then Returns (fail_obj 30 ''angle parameter required'')
      else case (case image_of a of None \<Rightarrow> None | Some im \<Rightarrow> Image_rotate im) of
        Some f \<Rightarrow> and_then (f angle)
          (\<lambda>_. Returns (ok_obj (''Rotated by '' @ to_string angle @ '' degrees'')))
      | None \<Rightarrow> Returns (fail_obj 31 ''Rotate action not available''))"

definition direction_message :: string where
  \<comment> \<open>\<open>direction must be "horizontal" or "vertical"\<close>\<close>
  "direction_message = ''direction must be '' @ [CHR 0x22] @ ''horizontal'' @ [CHR 0x22]
                         @ '' or '' @ [CHR 0x22] @ ''vertical'' @ [CHR 0x22]"

definition flip :: "engine \<Rightarrow> app \<Rightarrow> params \<Rightarrow> params call" where
  "flip eng a ps = handler_catch eng 49
     (let direction = get_prop ps ''direction'' in
      if \<not> truthy direction \<or> direction \<notin> set [JStr ''horizontal'', JStr ''vertical'']
      then Returns (fail_obj 40 direction_message)
      else case (case image_of a of None \<Rightarrow> None | Some im \<Rightarrow> Image_flip im) of
        Some f \<Rightarrow> and_then (f direction)
          (\<lambda>_. Returns (ok_obj (''Flipped '' @ to_string direction)))
      | None \<Rightarrow> Returns (fail_obj 41 ''Flip action not available''))"

definition crop :: "engine \<Rightarrow> app \<Rightarrow> params \<Rightarrow> params call" where
  "crop eng a ps = handler_catch eng 59
     (let x1 = get_prop ps ''x1''; y1 = get_prop ps ''y1'';
          x2 = get_prop ps ''x2''; y2 = get_prop ps ''y2'' in
      if x1 = JUndefined \<or> y1 = JUndefined \<or> x2 = JUndefined \<or> y2 = JUndefined
      then Returns (fail_obj 50 ''x1, y1, x2, y2 parameters required'')
      else case (case image_of a of None \<Rightarrow> None | Some im \<Rightarrow> Image_crop im) of
        Some f \<Rightarrow> and_then (f x1 y1 x2 y2)
          (\<lambda>_. Returns (ok_obj (''Cropped to ('' @ to_string x1 @ '','' @ to_string y1 @ '')-(''
                                 @ to_string x2 @ '','' @ to_string y2 @ '')'')))
      | None \<Rightarrow> Returns (fail_obj 51 ''Crop action not available''))"

definition applyEffect :: "engine \<Rightarrow> app \<Rightarrow> params \<Rightarrow> params call" where
  "applyEffect eng a ps = handler_catch eng 69
     (let name = get_prop ps ''name''; effectParams = filter (\<lambda>(k, v). k \<noteq> ''name'') ps in
      if \<not> truthy name then Returns (fail_obj 60 ''name parameter required'')
      else if name \<notin> set (map JStr validEffects)
      then Returns (fail_obj 61 (''Unknown effect: '' @ to_string name))
      else case (case filters_of a of None \<Rightarrow> None | Some fs \<Rightarrow> fs (to_string name)) of
        Some f \<Rightarrow> and_then (f effectParams)
          (\<lambda>_. Returns (ok_obj (''Applied effect: '' @ to_string name)))
      | None \<Rightarrow> Returns (fail_obj 62 (''Effect '' @ to_string name @ '' not available'')))"

definition addLayer :: "engine \<Rightarrow> app \<Rightarrow> params \<Rightarrow> params call" where
  "addLayer eng a ps = handler_catch eng 79
     (let name = (if get_prop ps ''name'' = JUndefined then JStr ''Layer'' else get_prop ps ''name'') in
      case (case Layers a of None \<Rightarrow> None | Some ls \<Rightarrow> Layers_addLayer ls) of
        Some f \<Rightarrow> and_then (f name)
          (\<lambda>layer. Returns (ok_result (''Added layer: '' @ to_string name)
                      (case layer of None \<Rightarrow> JStr [] | Some layer_id \<Rightarrow> layer_id)))
      | None \<Rightarrow> Returns (fail_obj 71 ''addLayer not available''))"

definition deleteLayer :: "engine \<Rightarrow> app \<Rightarrow> params \<Rightarrow> params call" where
  "deleteLayer eng a ps = handler_catch eng 89
     (let id = get_prop ps ''id'' in
      if id = JUndefined then Returns (fail_obj 80 ''id parameter required'')
      else case (case Layers a of None \<Rightarrow> None | Some ls \<Rightarrow> Layers_deleteLayer ls) of
        Some f \<Rightarrow> and_then (f id) (\<lambda>_. Returns (ok_obj (''Deleted layer: '' @ to_string id)))
      | None \<Rightarrow> Returns (fail_obj 81 ''deleteLayer not available''))"

definition mergeLayers :: "engine \<Rightarrow> app \<Rightarrow> params \<Rightarrow> params call" where
  "mergeLayers eng a ps = handler_catch eng 99
     (case (case Layers a of None \<Rightarrow> None | Some ls \<Rightarrow> Layers_mergeLayers ls) of
        Some c \<Rightarrow> and_then c (\<lambda>_. Returns (ok_obj ''Merged all layers''))
      | None \<Rightarrow> Returns (fail_obj 91 ''mergeLayers not available''))"

definition setOpacity :: "engine \<Rightarrow> app \<Rightarrow> params \<Rightarrow> params call" where
  "setOpacity eng a ps = handler_catch eng 109
     (let layer = get_prop ps ''layer''; opacity = get_prop ps ''opacity'' in
      if layer = JUndefined \<or> opacity = JUndefined
      then Returns (fail_obj 100 ''layer and opacity parameters required'')
      else if num_less (to_number opacity) (Dec 0 0) \<or> num_less (Dec 1 0) (to_number opacity)
      then Returns (fail_obj 101 ''opacity must be between 0 and 1'')
      else case (case Layers a of None \<Rightarrow> None | Some ls \<Rightarrow> Layers_setOpacity ls) of
        Some f \<Rightarrow> and_then (f layer opacity)
          (\<lambda>_. Returns (ok_obj (''Set layer '' @ to_string layer @ '' opacity to ''
                                 @ to_string opacity)))
      | None \<Rightarrow> Returns (fail_obj 102 ''setOpacity not available''))"

definition saveImage :: "engine \<Rightarrow> app \<Rightarrow> params \<Rightarrow> params call" where
  "saveImage eng a ps = handler_catch eng 119
     (let output = get_prop ps ''output'';
          format = (if get_prop ps ''format'' = JUndefined then JStr ''png''
                    else get_prop ps ''format'') in
      if \<not> truthy output then Returns (fail_obj 110 ''output parameter required'')
      else case (case FileSave a of None \<Rightarrow> None | Some fs \<Rightarrow> FileSave_saveFile fs) of
        Some f \<Rightarrow> and_then (f output format)
          (\<lambda>_. Returns (ok_obj (''Saved image: '' @ to_string output)))
      | None \<Rightarrow> Returns (fail_obj 111 ''saveFile not available''))"

definition getCanvasSize :: "engine \<Rightarrow> app \<Rightarrow> params \<Rightarrow> params call" where
  "getCanvasSize eng a ps = handler_catch eng 129
     (case (case State a of None \<Rightarrow> None | Some st \<Rightarrow> State_getCanvasSize st) of
        Some c \<Rightarrow> and_then c
          (\<lambda>(width, height). Returns (ok_result
              (''Canvas size: '' @ to_string width @ ''x'' @ to_string height)
              (JStr (json_object [(''width'', width), (''height'', height)]))))
      | None \<Rightarrow> Returns (fail_obj 121 ''getCanvasSize not available''))"

definition getImageData :: "engine \<Rightarrow> app \<Rightarrow> params \<Rightarrow> params call" where
  "getImageData eng a ps = handler_catch eng 139
     (case (case State a of None \<Rightarrow> None | Some st \<Rightarrow> State_getImageData st) of
        Some c \<Rightarrow> and_then c (\<lambda>dataUrl. Returns (ok_result ''Retrieved image data'' dataUrl))
      | None \<Rightarrow> Returns (fail_obj 131 ''getImageData not available''))"

definition optional_call :: "jsval call option \<Rightarrow> jsval call" where
  \<comment> \<open>\<open>f?.()\<close>: \<open>undefined\<close> when the function is not there\<close>
  "optional_call c = (case c of None \<Rightarrow> Returns JUndefined | Some r \<Rightarrow> r)"

definition getImageInfo :: "engine \<Rightarrow> app \<Rightarrow> params \<Rightarrow> params call" where
  "getImageInfo eng a ps = handler_catch eng 149
     (case State a of
        Some st \<Rightarrow>
          (let canvasWidth = or_else (case State_canvas st of None \<Rightarrow> JUndefined | Some (w, h) \<Rightarrow> w)
                                     (num_of_int 0);
               canvasHeight = or_else (case State_canvas st of None \<Rightarrow> JUndefined | Some (w, h) \<Rightarrow> h)
                                      (num_of_int 0) in
           and_then (optional_call (case Layers a of None \<Rightarrow> None | Some ls \<Rightarrow> Layers_getLayerCount ls))
             (\<lambda>count. and_then
                (optional_call (case Layers a of None \<Rightarrow> None | Some ls \<Rightarrow> Layers_getCurrentLayer ls))
                (\<lambda>current. Returns (ok_result ''Retrieved image info''
                   (JStr (json_object [(''canvasWidth'', canvasWidth), (''canvasHeight'', canvasHeight),
                                       (''layerCount'', or_else count (num_of_int 0)),
                                       (''currentLayer'', or_else current (num_of_int 0))]))))))
      | None \<Rightarrow> Returns (fail_obj 141 ''State not available''))"

definition listEffects :: "engine \<Rightarrow> app \<Rightarrow> params \<Rightarrow> params call" where
  "listEffects eng a ps = handler_catch eng 159
     (Returns (ok_result (''Available effects: '' @ join_with '', '' validEffects)
                 (JStr (json_array (map json_quote validEffects)))))"

definition listLayers :: "engine \<Rightarrow> app \<Rightarrow> params \<Rightarrow> params call" where
  "listLayers eng a ps = handler_catch eng 169
     (case (case Layers a of None \<Rightarrow> None | Some ls \<Rightarrow> Layers_getLayerList ls) of
        Some c \<Rightarrow> and_then c
          (\<lambda>layers. Returns (ok_result
              (''Layers: '' @ join_with '', '' (map (\<lambda>l. join_element (get_prop l ''name'')) layers))
              (JStr (json_array (map json_object layers)))))
      | None \<Rightarrow> Returns (fail_obj 161 ''getLayerList not available''))"

definition newImage :: "engine \<Rightarrow> app \<Rightarrow> params \<Rightarrow> params call" where
  "newImage eng a ps = handler_catch eng 179
     (let width = (if get_prop ps ''width'' = JUndefined then num_of_int 800 else get_prop ps ''width'');
          height = (if get_prop ps ''height'' = JUndefined then num_of_int 600
                    else get_prop ps ''height'') in
      case (case image_of a of None \<Rightarrow> None | Some im \<Rightarrow> Image_newImage im) of
        Some f \<Rightarrow> and_then (f width height)
          (\<lambda>_. Returns (ok_obj (''Created new image: '' @ to_string width @ ''x'' @ to_string height)))
      | None \<Rightarrow> Returns (fail_obj 171 ''newImage not available''))"

definition undo :: "engine \<Rightarrow> app \<Rightarrow> params \<Rightarrow> params call" where
  "undo eng a ps = handler_catch eng 189
     (case (case State a of None \<Rightarrow> None | Some st \<Rightarrow> State_undo st) of
        Some c \<Rightarrow> and_then c (\<lambda>_. Returns (ok_obj ''Undo performed''))
      | None \<Rightarrow> Returns (fail_obj 181 ''undo not available''))"

definition redo :: "engine \<Rightarrow> app \<Rightarrow> params \<Rightarrow> params call" where
  "redo eng a ps = handler_catch eng 199
     (case (case State a of None \<Rightarrow> None | Some st \<Rightarrow> State_redo st) of
        Some c \<Rightarrow> and_then c (\<lambda>_. Returns (ok_obj ''Redo performed''))
      | None \<Rightarrow> Returns (fail_obj 191 ''redo not available''))"

text \<open>
  The table \<open>this.handlers\<close> of the constructor. It is a plain object, so the lookup
  \<open>this.handlers[method]\<close> also finds the members that every object inherits from
  \<open>Object.prototype\<close>. Called as \<open>handler(args)\<close>, without a receiver, \<open>constructor\<close>
  returns its argument, \<open>toString\<close> returns a string, which has none of the properties that
  \<open>run\<close> reads, and the others throw a \<open>TypeError\<close>; \<open>__proto__\<close> is not a function.
\<close>

definition handler_table :: "engine \<Rightarrow> app \<Rightarrow> (string \<times> (params \<Rightarrow> params call)) list" where
  "handler_table eng a =
     [(''open-image'', openImage eng a),
      (''resize'', resize eng a),
      (''rotate'', rotate_image eng a),
      (''flip'', flip eng a),
      (''crop'', crop eng a),
      (''apply-effect'', applyEffect eng a),
      (''add-layer'', addLayer eng a),
      (''delete-layer'', deleteLayer eng a),
      (''merge-layers'', mergeLayers eng a),
      (''set-opacity'', setOpacity eng a),
      (''save-image'', saveImage eng a),
      (''get-canvas-size'', getCanvasSize eng a),
      (''get-image-data'', getImageData eng a),
      (''get-image-info'', getImageInfo eng a),
      (''list-effects'', listEffects eng a),
      (''list-layers'', listLayers eng a),
      (''new-image'', newImage eng a),
      (''undo'', undo eng a),
      (''redo'', redo eng a)]"

definition registered_methods :: "string list" where
  "registered_methods =
     [''open-image'', ''resize'', ''rotate'', ''flip'', ''crop'', ''apply-effect'', ''add-layer'',
      ''delete-layer'', ''merge-layers'', ''set-opacity'', ''save-image'', ''get-canvas-size'',
      ''get-image-data'', ''get-image-info'', ''list-effects'', ''list-layers'', ''new-image'',
      ''undo'', ''redo'']"

definition object_prototype_members :: "string list" where
  "object_prototype_members =
     [''constructor'', ''__defineGetter__'', ''__defineSetter__'', ''hasOwnProperty'',
      ''__lookupGetter__'', ''__lookupSetter__'', ''isPrototypeOf'', ''propertyIsEnumerable'',
      ''toString'', ''valueOf'', ''__proto__'', ''toLocaleString'']"

definition inherited_member :: "engine \<Rightarrow> string \<Rightarrow> (params \<Rightarrow> params call) option" where
  "inherited_member eng name =
     (if name = ''constructor'' then Some (\<lambda>args. Returns args)
      else if name = ''toString'' then Some (\<lambda>args. Returns [])
      else if name = ''__proto__'' then Some (\<lambda>args. Throws (Thrown (JStr (not_a_function eng))))
      else if name \<in> set object_prototype_members
      then Some (\<lambda>args. Throws (Thrown (JStr (no_receiver eng name))))
      else None)"

definition handlers :: "engine \<Rightarrow> app \<Rightarrow> string \<Rightarrow> (params \<Rightarrow> params call) option" where
  \<comment> \<open>\<open>this.handlers[method]\<close>\<close>
  "handlers eng a name =
     (case map_of (handler_table eng a) name of
        Some h \<Rightarrow> Some h
      | None \<Rightarrow> inherited_member eng name)"

definition dispatch_target :: "jsval \<Rightarrow> params \<Rightarrow> jsval \<times> params" where
  \<comment> \<open>the method and the arguments that \<open>run\<close> settles on: a string is parsed, and the
      parameters given with it are not used\<close>
  "dispatch_target commandString ps =
     (case commandString of
        JStr s \<Rightarrow> (JStr (fst (parseCommand s)), snd (parseCommand s))
      | _ \<Rightarrow> (commandString, ps))"

definition run_body :: "engine \<Rightarrow> app \<Rightarrow> jsval \<Rightarrow> params \<Rightarrow> params call" where
  \<comment> \<open>the \<open>try\<close> block of \<open>run\<close>\<close>
  "run_body eng a commandString ps =
     (if Layers a = None
      then Returns [(''success'', JBool False), (''errorCode'', num_of_int 1),
                    (''output'', JStr ''miniPaint not initialized'')]
      else
        let (method, args) = dispatch_target commandString ps
        in case handlers eng a (to_string method) of
             None \<Rightarrow>
               Returns [(''success'', JBool False), (''errorCode'', num_of_int 2),
                        (''output'', JStr (''Unknown command: '' @ to_string method))]
           | Some handler \<Rightarrow>
               and_then (handler args)
                 (\<lambda>result. Returns
                    [(''success'', JBool (get_prop result ''success'' \<noteq> JBool False)),
                     (''errorCode'', or_else (get_prop result ''errorCode'') (num_of_int 0)),
                     (''output'', or_else (get_prop result ''output'') (JStr [])),
                     (''result'', or_else (get_prop result ''result'') (JStr []))]))"

definition run :: "engine \<Rightarrow> app \<Rightarrow> jsval \<Rightarrow> params \<Rightarrow> params call" where
  \<comment> \<open>\<open>run(commandString, params = {}, sourceContext)\<close>; the third argument is not used\<close>
  "run eng a commandString ps =
     (case run_body eng a commandString ps of
        Returns r \<Rightarrow> Returns r
      | Throws Nullish \<Rightarrow> Throws (Thrown (JStr (read_of_nullish eng)))
      | Throws (Thrown m) \<Rightarrow>
          Returns [(''success'', JBool False), (''errorCode'', num_of_int 99),
                   (''output'', JStr (''Error: '' @ to_string m))])"

section \<open>The control bus\<close>

text \<open>
  \<open>MiniPaintWorkerBridge\<close> and \<open>MiniPaintDirectorBridge\<close> exchange messages through
  \<open>postMessage\<close>. A message is the record of the properties that the bridges read from
  \<open>event.data\<close>; a property that is not there is \<open>undefined\<close> (the empty object for
  \<open>params\<close>). Data that is falsy is \<open>None\<close>. The \<open>result\<close> of a response is a primitive
  value or an object, such as the object that \<open>run\<close> returns.
\<close>

datatype payload = PVal jsval | PObj params

record message =
  m_type :: jsval
  m_id :: jsval
  m_method :: jsval
  m_params :: params
  m_success :: jsval
  m_result :: payload
  m_error :: jsval

subsection \<open>The worker bridge\<close>

definition worker_on_message :: "engine \<Rightarrow> app \<Rightarrow> message option \<Rightarrow> message option" where
  \<comment> \<open>the listener of \<open>MiniPaintWorkerBridge.setupMessageHandling\<close>: the message it posts back,
      if any; \<open>executeCommand\<close> is \<open>run\<close>\<close>
  "worker_on_message eng a d =
     (case d of
        None \<Rightarrow> None
      | Some m \<Rightarrow>
          if m_type m \<noteq> JStr ''rpc-request'' then None
          else case run eng a (m_method m) (m_params m) of
            Returns result \<Rightarrow>
              Some \<lparr>m_type = JStr ''rpc-response'', m_id = m_id m, m_method = JUndefined,
                    m_params = [], m_success = get_prop result ''success'',
                    m_result = PObj result, m_error = JUndefined\<rparr>
          | Throws Nullish \<Rightarrow> None
          | Throws (Thrown msg) \<Rightarrow>
              Some \<lparr>m_type = JStr ''rpc-response'', m_id = m_id m, m_method = JUndefined,
                    m_params = [], m_success = JBool False,
                    m_result = PVal JUndefined, m_error = msg\<rparr>)"

subsection \<open>The director bridge\<close>

text \<open>
  The state of a director bridge and of what its closures hold: the counter, the table of
  pending requests, the timeout, the timers that are set and not cleared, the promises that
  \<open>sendRPC\<close> returned, the messages posted to the worker, and the clock in milliseconds.
  Each call of \<open>sendRPC\<close> creates one promise and one timer; both are named by the request id
  of the call. An entry of the table holds two closures over the promise and the timer of one
  call, and is that call's request id. \<open>settled\<close> records every call of a promise's
  \<open>resolve\<close> or \<open>reject\<close>, with the time of the call.
\<close>

datatype promise_state = Pending | Resolved payload | Rejected string

record timer =
  due :: nat
  for_method :: jsval

record director =
  requestId :: nat
  pendingRequests :: "nat \<rightharpoonup> nat"
  timeout :: nat
  timers :: "nat \<rightharpoonup> timer"
  promises :: "nat \<rightharpoonup> promise_state"
  settled :: "(nat \<times> promise_state \<times> nat) list"
  outbox :: "message list"
  now :: nat

definition new_bridge :: "nat \<Rightarrow> director" where
  \<comment> \<open>the constructor, at a given time\<close>
  "new_bridge t = \<lparr>requestId = 0, pendingRequests = Map.empty, timeout = 30000,
                    timers = Map.empty, promises = Map.empty, settled = [], outbox = [], now = t\<rparr>"

definition settle :: "nat \<Rightarrow> promise_state \<Rightarrow> director \<Rightarrow> director" where
  \<comment> \<open>a call of the \<open>resolve\<close> or \<open>reject\<close> of a promise; only a pending promise changes\<close>
  "settle p outcome s =
     s\<lparr>settled := settled s @ [(p, outcome, now s)],
       promises := (if promises s p = Some Pending then (promises s)(p \<mapsto> outcome)
                    else promises s)\<rparr>"

definition entry_resolve :: "nat \<Rightarrow> payload \<Rightarrow> director \<Rightarrow> director" where
  \<comment> \<open>\<open>resolve: (result) => { clearTimeout(timeoutId); resolve(result); }\<close>\<close>
  "entry_resolve e r s = settle e (Resolved r) (s\<lparr>timers := (timers s)(e := None)\<rparr>)"

definition entry_reject :: "nat \<Rightarrow> string \<Rightarrow> director \<Rightarrow> director" where
  \<comment> \<open>\<open>reject: (error) => { clearTimeout(timeoutId); reject(error); }\<close>\<close>
  "entry_reject e msg s = settle e (Rejected msg) (s\<lparr>timers := (timers s)(e := None)\<rparr>)"

definition map_key :: "jsval \<Rightarrow> nat option" where
  \<comment> \<open>the key of the table that a value is the same as: the keys are the request ids\<close>
  "map_key v =
     (case v of
        JNum (Dec m k) \<Rightarrow> if 0 \<le> m \<and> m mod 10 ^ k = 0 then Some (nat (m div 10 ^ k)) else None
      | _ \<Rightarrow> None)"

definition pending_entry :: "director \<Rightarrow> jsval \<Rightarrow> (nat \<times> nat) option" where
  \<comment> \<open>\<open>this.pendingRequests.get(id)\<close>, with the key that was found\<close>
  "pending_entry s v =
     (case map_key v of
        None \<Rightarrow> None
      | Some k \<Rightarrow> (case pendingRequests s k of None \<Rightarrow> None | Some e \<Rightarrow> Some (k, e)))"

definition director_on_message :: "message option \<Rightarrow> director \<Rightarrow> director" where
  \<comment> \<open>the listener of \<open>MiniPaintDirectorBridge.setupMessageHandling\<close>\<close>
  "director_on_message d s =
     (case d of
        None \<Rightarrow> s
      | Some m \<Rightarrow>
          if m_type m \<noteq> JStr ''rpc-response'' then s
          else case pending_entry s (m_id m) of
            None \<Rightarrow> s
          | Some (k, e) \<Rightarrow>
              (let s' = (if truthy (m_success m) then entry_resolve e (m_result m) s
                         else entry_reject e
                                (to_string (or_else (m_error m) (JStr ''Unknown error''))) s)
               in s'\<lparr>pendingRequests := (pendingRequests s')(k := None)\<rparr>))"

definition timer_delay :: "nat \<Rightarrow> nat" where
  \<comment> \<open>the delay that \<open>setTimeout\<close> takes from its second argument: the argument is read as a
      signed integer of 32 bits, so it is taken modulo \<open>2 ^ 32\<close>, and a negative delay is zero\<close>
  "timer_delay ms = (let w = ms mod 2 ^ 32 in if w < 2 ^ 31 then w else 0)"

definition sendRPC :: "jsval \<Rightarrow> params \<Rightarrow> director \<Rightarrow> nat \<times> director" where
  \<comment> \<open>the request id, which names the promise that is returned, and the new state\<close>
  "sendRPC method ps s =
     (let id = requestId s + 1
      in (id, s\<lparr>requestId := id,
                promises := (promises s)(id \<mapsto> Pending),
                timers := (timers s)(id \<mapsto> \<lparr>due = now s + timer_delay (timeout s),
                                               for_method = method\<rparr>),
                pendingRequests := (pendingRequests s)(id \<mapsto> id),
                outbox := outbox s @
                  [\<lparr>m_type = JStr ''rpc-request'', m_id = JNum (Dec (int id) 0), m_method = method,
                    m_params = ps, m_success = JUndefined, m_result = PVal JUndefined,
                    m_error = JUndefined\<rparr>]\<rparr>))"

definition timeout_message :: "nat \<Rightarrow> jsval \<Rightarrow> nat \<Rightarrow> string" where
  "timeout_message i method ms =
     ''RPC request '' @ nat_digits i @ '' ('' @ to_string method @ '') timed out after ''
       @ nat_digits ms @ ''ms''"

definition timer_fires :: "nat \<Rightarrow> director \<Rightarrow> director" where
  \<comment> \<open>the callback given to \<open>setTimeout\<close> in \<open>sendRPC\<close>. A timer that is not set, or was
      cleared, does not fire, and no timer fires before it is due, which is \<open>timer_delay\<close> of
      the timeout after the call of \<open>setTimeout\<close>.\<close>
  "timer_fires i s =
     (case timers s i of
        None \<Rightarrow> s
      | Some t \<Rightarrow>
          if now s < due t then s
          else settle i (Rejected (timeout_message i (for_method t) (timeout s)))
                 (s\<lparr>timers := (timers s)(i := None),
                    pendingRequests := (pendingRequests s)(i := None)\<rparr>))"

text \<open>
  What can happen to a bridge: a call of \<open>sendRPC\<close>, the delivery of a message, a timer
  firing, time passing, and an assignment to the field \<open>timeout\<close>.
\<close>

datatype event = Send jsval params | Deliver "message option" | Fire nat | Tick nat | Configure nat

fun step :: "director \<Rightarrow> event \<Rightarrow> director" where
  "step s (Send method ps) = snd (sendRPC method ps s)"
| "step s (Deliver d) = director_on_message d s"
| "step s (Fire i) = timer_fires i s"
| "step s (Tick dt) = s\<lparr>now := now s + dt\<rparr>"
| "step s (Configure ms) = s\<lparr>timeout := ms\<rparr>"

definition run_events :: "director \<Rightarrow> event list \<Rightarrow> director" where
  "run_events s es = foldl step s es"

definition answers :: "nat \<Rightarrow> event \<Rightarrow> bool" where
  \<comment> \<open>the event delivers a response to the request with this id\<close>
  "answers i e =
     (case e of
        Deliver (Some m) \<Rightarrow> m_type m = JStr ''rpc-response'' \<and> map_key (m_id m) = Some i
      | _ \<Rightarrow> False)"

subsection \<open>The address handler of the director\<close>

definition address_request :: "jsval \<Rightarrow> params \<Rightarrow> jsval \<times> params" where
  \<comment> \<open>\<open>createAddressHandler\<close>, up to the call of \<open>sendRPC\<close>: the method and the parameters sent\<close>
  "address_request commandString ps =
     (case commandString of
        JStr c \<Rightarrow>
          if CHR '' '' \<in> set c
          then (let parts = split_ws (trim c) in (JStr (hd parts), foldl parse_token [] (tl parts)))
          else (commandString, ps)
      | _ \<Rightarrow> (commandString, ps))"

definition address_reply :: "engine \<Rightarrow> promise_state \<Rightarrow> params option" where
  \<comment> \<open>\<open>createAddressHandler\<close>, after the \<open>await\<close>: what the handler returns once the promise of
      \<open>sendRPC\<close> is settled\<close>
  "address_reply eng p =
     (case p of
        Pending \<Rightarrow> None
      | Resolved (PObj result) \<Rightarrow>
          Some [(''success'', get_prop result ''success''),
                (''errorCode'', or_else (get_prop result ''errorCode'') (num_of_int 0)),
                (''output'', or_else (get_prop result ''output'') (JStr [])),
                (''result'', or_else (get_prop result ''result'') (JStr []))]
      | Resolved (PVal v) \<Rightarrow>
          if v = JUndefined \<or> v = JNull
          then Some [(''success'', JBool False), (''errorCode'', num_of_int 99),
                     (''output'', JStr (''RPC Error: '' @ read_of_nullish eng))]
          else Some [(''success'', JUndefined), (''errorCode'', num_of_int 0),
                     (''output'', JStr []), (''result'', JStr [])]
      | Rejected msg \<Rightarrow>
          Some [(''success'', JBool False), (''errorCode'', num_of_int 99),
                (''output'', JStr (''RPC Error: '' @ msg))])"

section \<open>Script execution\<close>

text \<open>
  \<open>executeRexxScript\<close> and the handler that \<open>setupRexxScriptExecution\<close> installs. The
  interpreter and the parser are globals of the page, \<open>window.RexxInterpreter\<close> and
  \<open>window.parse\<close>, and are not part of this program: \<open>None\<close> when the global is falsy,
  otherwise what constructing the interpreter gives and what the parser does with a script.
  Of an interpreter, the runner uses its \<open>say\<close>, its \<open>variables\<close> and its
  \<open>addressTargets\<close>. The parser gives a list of commands, of which the runner reads the
  \<open>type\<close> and the properties that go with it.
\<close>

datatype rexx_command = Say jsval | Address jsval params | Assignment string jsval | OtherCommand

record interpreter =
  i_say :: "(jsval \<Rightarrow> unit call) option"
  i_variables :: "params option"
  i_addressTargets :: bool

record rexx =
  window_RexxInterpreter :: "interpreter call option"
  window_parse :: "(jsval \<Rightarrow> rexx_command list call) option"

record script_state =
  s_output :: string
  s_result :: jsval
  s_returnCode :: jsval
  s_variables :: "params option"

datatype loop_outcome = Done script_state | Raised thrown script_state | Hung

datatype script_outcome = Settled params "params option" | Never

text \<open>
  The editor may change while a script runs. \<open>editor n\<close> is the application object as the
  directive number \<open>n\<close> of the script finds it. A directive whose dispatch is rejected leaves
  the promise of \<open>send\<close> pending for ever, and the script with it.
\<close>

definition address_send ::
  "engine \<Rightarrow> app \<Rightarrow> bool \<Rightarrow> jsval \<Rightarrow> params \<Rightarrow> script_state \<Rightarrow> (script_state \<times> bool) option" where
  \<comment> \<open>an \<open>ADDRESS\<close> command: \<open>addressHandler.send\<close> and the lines after it; the boolean is \<open>break\<close>\<close>
  "address_send eng a stopOnError command ps st =
     (case run eng a command ps of
        Throws _ \<Rightarrow> None
      | Returns response \<Rightarrow>
          (let vars = (case s_variables st of
                         None \<Rightarrow> None
                       | Some vs \<Rightarrow>
                           Some (set_prop ''RESULT''
                                   (or_else (get_prop response ''result'')
                                      (or_else (get_prop response ''output'') (JStr [])))
                                   (set_prop ''RC''
                                      (or_else (get_prop response ''errorCode'') (num_of_int 0)) vs)))
           in if truthy (get_prop response ''errorCode'')
              then Some (st\<lparr>s_variables := vars,
                            s_returnCode := get_prop response ''errorCode'',
                            s_result := get_prop response ''output''\<rparr>, stopOnError)
              else Some (st\<lparr>s_variables := vars,
                            s_result := or_else (get_prop response ''result'')
                                          (or_else (get_prop response ''output'') (JStr []))\<rparr>,
                         False)))"

fun exec_commands ::
  "engine \<Rightarrow> (nat \<Rightarrow> app) \<Rightarrow> interpreter \<Rightarrow> bool \<Rightarrow> nat \<Rightarrow> rexx_command list \<Rightarrow> script_state
     \<Rightarrow> loop_outcome" where
  "exec_commands eng editor interp stopOnError n [] st = Done st"
| "exec_commands eng editor interp stopOnError n (Say v # cs) st =
     (let value = or_else v (JStr []);
          st' = st\<lparr>s_output := s_output st @ to_string value @ [CHR 0x0A]\<rparr>
      in case (case i_say interp of None \<Rightarrow> Returns () | Some originalSay \<Rightarrow> originalSay value) of
           Throws e \<Rightarrow> Raised e st'
         | Returns _ \<Rightarrow> exec_commands eng editor interp stopOnError n cs st')"
| "exec_commands eng editor interp stopOnError n (Address command ps # cs) st =
     (case address_send eng (editor n) stopOnError command ps st of
        None \<Rightarrow> Hung
      | Some (st', stop) \<Rightarrow>
          if stop then Done st' else exec_commands eng editor interp stopOnError (Suc n) cs st')"
| "exec_commands eng editor interp stopOnError n (Assignment variable v # cs) st =
     exec_commands eng editor interp stopOnError n cs
       (st\<lparr>s_variables :=
             Some (set_prop variable v (case s_variables st of None \<Rightarrow> [] | Some vs \<Rightarrow> vs))\<rparr>)"
| "exec_commands eng editor interp stopOnError n (OtherCommand # cs) st =
     exec_commands eng editor interp stopOnError n cs st"

definition script_failed :: "thrown \<Rightarrow> script_outcome" where
  \<comment> \<open>the outer \<open>catch\<close> of \<open>executeRexxScript\<close>\<close>
  "script_failed e =
     (case e of
        Nullish \<Rightarrow> Never
      | Thrown m \<Rightarrow>
          Settled [(''success'', JBool False),
                   (''output'', JStr (''Error executing script: '' @ to_string m)),
                   (''returnCode'', num_of_int 99)] None)"

definition script_finished :: "script_state \<Rightarrow> script_outcome" where
  \<comment> \<open>the \<open>resolve\<close> after the inner \<open>try\<close>\<close>
  "script_finished st =
     Settled [(''success'', JBool (s_returnCode st = num_of_int 0)),
              (''output'', JStr (trim (s_output st))),
              (''result'', s_result st),
              (''returnCode'', s_returnCode st)]
             (Some (case s_variables st of None \<Rightarrow> [] | Some vs \<Rightarrow> vs))"

definition parse_failed :: "engine \<Rightarrow> thrown \<Rightarrow> script_state \<Rightarrow> script_outcome" where
  \<comment> \<open>the inner \<open>catch (parseError)\<close>, which also catches what the commands throw\<close>
  "parse_failed eng e st =
     (case e of
        Nullish \<Rightarrow> script_failed (Thrown (JStr (read_of_nullish eng)))
      | Thrown m \<Rightarrow>
          script_finished (st\<lparr>s_output := s_output st @ [CHR 0x0A] @ ''Parse error: '' @ to_string m,
                              s_returnCode := num_of_int 2\<rparr>))"

definition executeRexxScript ::
  "engine \<Rightarrow> (nat \<Rightarrow> app) \<Rightarrow> rexx \<Rightarrow> jsval \<Rightarrow> params \<Rightarrow> script_outcome" where
  "executeRexxScript eng editor w script options =
     (case (window_RexxInterpreter w, window_parse w) of
        (Some construct, Some parse) \<Rightarrow>
          (case construct of
             Throws e \<Rightarrow> script_failed e
           | Returns interp \<Rightarrow>
               if \<not> i_addressTargets interp
               then script_failed (Thrown (JStr (read_of_nullish eng)))
               else
                 (let st = \<lparr>s_output = [], s_result = JStr [], s_returnCode = num_of_int 0,
                            s_variables = i_variables interp\<rparr>
                  in case parse script of
                       Throws e \<Rightarrow> parse_failed eng e st
                     | Returns commands \<Rightarrow>
                         (case exec_commands eng editor interp
                                 (truthy (get_prop options ''stopOnError'')) 0 commands st of
                            Done st' \<Rightarrow> script_finished st'
                          | Raised e st' \<Rightarrow> parse_failed eng e st'
                          | Hung \<Rightarrow> Never)))
      | _ \<Rightarrow>
          Settled [(''success'', JBool False), (''output'', JStr ''RexxJS interpreter not loaded''),
                   (''returnCode'', num_of_int 1)] None)"

definition starts_with :: "string \<Rightarrow> string \<Rightarrow> bool" where
  "starts_with p s = (take (length p) s = p)"

fun has_substring :: "string \<Rightarrow> string \<Rightarrow> bool" where
  "has_substring sub [] = (sub = [])"
| "has_substring sub (c # cs) = (starts_with sub (c # cs) \<or> has_substring sub cs)"

fun match_script :: "string \<Rightarrow> string option" where
  \<comment> \<open>the first group of the first match of \<open>/script="([^"]+)"/\<close>\<close>
  "match_script [] = None"
| "match_script (c # cs) =
     (let rest = drop 8 (c # cs); g = takeWhile (\<lambda>x. x \<noteq> CHR 0x22) rest
      in if starts_with (''script='' @ [CHR 0x22]) (c # cs) \<and> g \<noteq> []
            \<and> dropWhile (\<lambda>x. x \<noteq> CHR 0x22) rest \<noteq> []
         then Some g else match_script cs)"

definition script_content :: "string \<Rightarrow> params \<Rightarrow> jsval" where
  \<comment> \<open>the script of an \<open>execute-rexx\<close> command: the parameter \<open>script\<close>, or else what
      is quoted after \<open>script=\<close> in the command\<close>
  "script_content c ps =
     (let fromParams = or_else (get_prop ps ''script'') (JStr [])
      in if \<not> truthy fromParams \<and> has_substring ''script='' c
         then (case match_script c of None \<Rightarrow> JStr [] | Some g \<Rightarrow> JStr g)
         else fromParams)"

definition address_minipaint_handler ::
  "engine \<Rightarrow> (nat \<Rightarrow> app) \<Rightarrow> rexx \<Rightarrow> jsval \<Rightarrow> params \<Rightarrow> params call option" where
  \<comment> \<open>the function that \<open>setupRexxScriptExecution\<close> assigns to \<open>window.ADDRESS_MINIPAINT_HANDLER\<close>;
      \<open>None\<close> when its promise stays pending. The promise of \<open>executeRexxScript\<close> is never
      rejected, so the \<open>catch\<close> with the code 299 is not entered.\<close>
  "address_minipaint_handler eng editor w commandString ps =
     (case commandString of
        JStr c \<Rightarrow>
          if starts_with ''execute-rexx'' c
          then (let scriptContent = script_content c ps
                in if \<not> truthy scriptContent
                   then Some (Returns [(''success'', JBool False), (''errorCode'', num_of_int 200),
                                       (''output'', JStr ''script parameter required for execute-rexx'')])
                   else case executeRexxScript eng editor w scriptContent ps of
                          Never \<Rightarrow> None
                        | Settled result vars \<Rightarrow>
                            Some (Returns [(''success'', get_prop result ''success''),
                                           (''errorCode'', get_prop result ''returnCode''),
                                           (''output'', get_prop result ''output''),
                                           (''result'', get_prop result ''result'')]))
          else Some (run eng (editor 0) commandString ps)
      | JUndefined \<Rightarrow> Some (Throws (Thrown (JStr (read_of_nullish eng))))
      | JNull \<Rightarrow> Some (Throws (Thrown (JStr (read_of_nullish eng))))
      | _ \<Rightarrow> Some (Throws (Thrown (JStr (not_a_function eng)))))"

section \<open>Tables and examples used in the statements\<close>


definition consistent :: "params \<Rightarrow> bool" where
  \<comment> \<open>\<open>success == (errorCode == 0)\<close>, of an object that \<open>run\<close> returns\<close>
  "consistent env =
     (get_prop env ''success'' = JBool (get_prop env ''errorCode'' = num_of_int 0))"

text \<open>
  An engine, and an editor that is initialized and has every image action, each of which
  returns. In \<open>failing_app\<close> the action \<open>resize\<close> throws \<open>undefined\<close>.
\<close>

definition example_engine :: engine where
  "example_engine =
     \<lparr>read_of_nullish = ''Cannot read properties of undefined'',
      not_a_function = ''handler is not a function'',
      no_receiver = (\<lambda>name. ''Cannot convert undefined or null to object'')\<rparr>"

definition example_layers :: layers where
  "example_layers =
     \<lparr>Layers_addLayer = None, Layers_deleteLayer = None, Layers_mergeLayers = None,
      Layers_setOpacity = None, Layers_getLayerList = None, Layers_getLayerCount = None,
      Layers_getCurrentLayer = None\<rparr>"

definition example_image :: image_actions where
  "example_image =
     \<lparr>Image_resize = Some (\<lambda>w h. Returns ()), Image_rotate = Some (\<lambda>a. Returns ()),
      Image_flip = Some (\<lambda>d. Returns ()), Image_crop = Some (\<lambda>x1 y1 x2 y2. Returns ()),
      Image_newImage = Some (\<lambda>w h. Returns ())\<rparr>"

definition example_app :: app where
  "example_app =
     \<lparr>Layers = Some example_layers,
      Actions = Some \<lparr>Actions_Image = Some example_image, Actions_Filters = None\<rparr>,
      FileOpen = None, FileSave = None, State = None\<rparr>"

definition failing_app :: app where
  "failing_app =
     \<lparr>Layers = Some example_layers,
      Actions = Some \<lparr>Actions_Image = Some (example_image\<lparr>Image_resize := Some (\<lambda>w h. Throws Nullish)\<rparr>),
                     Actions_Filters = None\<rparr>,
      FileOpen = None, FileSave = None, State = None\<rparr>"

definition example_interpreter :: interpreter where
  "example_interpreter = \<lparr>i_say = None, i_variables = Some [], i_addressTargets = True\<rparr>"

definition rejecting_parse :: "jsval \<Rightarrow> rexx_command list call" where
  \<comment> \<open>a parser that rejects every script with the message \<open>bad\<close>\<close>
  "rejecting_parse script = Throws (Thrown (JStr ''bad''))"

definition example_rexx :: rexx where
  "example_rexx =
     \<lparr>window_RexxInterpreter = Some (Returns example_interpreter),
      window_parse = Some rejecting_parse\<rparr>"

definition marked :: "params \<Rightarrow> bool" where
  \<comment> \<open>of an object that a handler returns: \<open>success\<close> is \<open>false\<close> exactly when there is an
      error code that \<open>run\<close> keeps\<close>
  "marked r =
     ((get_prop r ''success'' \<noteq> JBool False)
        = (or_else (get_prop r ''errorCode'') (num_of_int 0) = num_of_int 0))"

definition bridge_invariant :: "director \<Rightarrow> bool" where
  \<comment> \<open>what holds of a bridge after any run of events: an entry of the table belongs to its own
      key, a request with an entry or a timer has no call of \<open>resolve\<close> or \<open>reject\<close> yet,
      a timer is set only while the entry is there, and no promise has two such calls\<close>
  "bridge_invariant s =
     ((\<forall>k e. pendingRequests s k = Some e \<longrightarrow>
          e = k \<and> k \<le> requestId s \<and> k \<notin> set (map fst (settled s)))
      \<and> (\<forall>i tm. timers s i = Some tm \<longrightarrow> pendingRequests s i = Some i)
      \<and> (\<forall>i \<in> set (map fst (settled s)). i \<le> requestId s)
      \<and> distinct (map fst (settled s)))"

definition undo_response :: message where
  \<comment> \<open>the response of a worker to the request 1, for a command that succeeded\<close>
  "undo_response =
     \<lparr>m_type = JStr ''rpc-response'', m_id = num_of_int 1, m_method = JUndefined, m_params = [],
      m_success = JBool True,
      m_result = PObj [(''success'', JBool True), (''errorCode'', num_of_int 0),
                       (''output'', JStr ''Undo performed''), (''result'', JStr [])],
      m_error = JUndefined\<rparr>"

definition example_editor :: "nat \<Rightarrow> app" where
  \<comment> \<open>an editor that stays as it is while a script runs\<close>
  "example_editor n = example_app"

section \<open>Properties of the command parser\<close>

lemma split_ws_not_Nil: "split_ws s \<noteq> []"
proof (induction s)
  case Nil
  show ?case by simp
next
  case (Cons c cs)
  then show ?case
    by (subst split_ws.simps) (auto simp del: split_ws.simps split: list.split)
qed

lemma split_eq_not_Nil: "split_eq s \<noteq> []"
  by (induction s) (auto split: list.splits)

lemma split_eq_no_eq: "CHR ''='' \<notin> set s \<Longrightarrow> split_eq s = [s]"
  by (induction s) auto

lemma split_eq_append: "CHR ''='' \<notin> set k \<Longrightarrow> split_eq (k @ CHR ''='' # r) = k # split_eq r"
  by (induction k) auto

lemma first_occurrence:
  "1 \<le> count_list s c \<Longrightarrow> s = takeWhile (\<lambda>x. x \<noteq> c) s @ c # tl (dropWhile (\<lambda>x. x \<noteq> c) s)"
  by (induction s) (auto split: if_splits)

lemma count_after_first:
  "1 \<le> count_list s c \<Longrightarrow> count_list (tl (dropWhile (\<lambda>x. x \<noteq> c) s)) c = count_list s c - 1"
  by (induction s) (auto split: if_splits)

lemma takeWhile_no_sep: "c \<notin> set (takeWhile (\<lambda>x. x \<noteq> c) s)"
  by (induction s) auto

lemma token_decompose:
  assumes "2 \<le> count_list tok c"
  shows "\<exists>rest. tok = takeWhile (\<lambda>x. x \<noteq> c) tok @ c #
            takeWhile (\<lambda>x. x \<noteq> c) (tl (dropWhile (\<lambda>x. x \<noteq> c) tok)) @ c # rest"
proof -
  let ?r1 = "tl (dropWhile (\<lambda>x. x \<noteq> c) tok)"
  from assms have 1: "tok = takeWhile (\<lambda>x. x \<noteq> c) tok @ c # ?r1"
    by (intro first_occurrence) simp
  from assms have "1 \<le> count_list ?r1 c"
    by (simp add: count_after_first)
  then have "?r1 = takeWhile (\<lambda>x. x \<noteq> c) ?r1 @ c # tl (dropWhile (\<lambda>x. x \<noteq> c) ?r1)"
    by (rule first_occurrence)
  with 1 show ?thesis by metis
qed

lemma isNaN_true: "isNaN_str ''true''"
  by code_simp

lemma isNaN_false: "isNaN_str ''false''"
  by code_simp

lemma parse_token_no_eq: "CHR ''='' \<notin> set tok \<Longrightarrow> parse_token ps tok = ps"
  by (simp add: parse_token_def split_eq_no_eq)

lemma parse_token_pair:
  "CHR ''='' \<notin> set key \<Longrightarrow>
   parse_token ps (key @ CHR ''='' # v @ r) =
     (case split_eq (v @ r) of [] \<Rightarrow> ps
      | w # _ \<Rightarrow> if key \<noteq> [] then set_prop key (coerce w) ps else ps)"
  by (simp add: parse_token_def split_eq_append split: list.splits)

lemma foldl_parse_token_filter:
  "foldl parse_token ps toks = foldl parse_token ps (filter (\<lambda>t. CHR ''='' \<in> set t) toks)"
  by (induction toks arbitrary: ps) (simp_all add: parse_token_no_eq)

text \<open>
  Claim C7. The command \<open>apply-effect blur radius=5\<close> parses to the method \<open>apply-effect\<close> and
  the single parameter \<open>radius\<close> with the number 5. In every command the tokens without an
  \<open>=\<close> leave the parameters as they are: the parameters are those of the tokens that contain an
  \<open>=\<close>. A token \<open>key=value\<close> whose value is a numeric literal (\<open>Number(value)\<close> is not
  \<open>NaN\<close>, and the value is not empty) stores \<open>Number(value)\<close>, a number, under the key.
\<close>

theorem parseCommand_apply_effect_radius:
  "parseCommand ''apply-effect blur radius=5'' = (''apply-effect'', [(''radius'', JNum (Dec 5 0))])
   \<and> snd (parseCommand s) =
       foldl parse_token [] (filter (\<lambda>t. CHR ''='' \<in> set t) (tl (split_ws (trim s))))
   \<and> (CHR ''='' \<notin> set tok \<longrightarrow> parse_token ps tok = ps)
   \<and> (key \<noteq> [] \<and> CHR ''='' \<notin> set key \<and> CHR ''='' \<notin> set v \<and> v \<noteq> [] \<and> \<not> isNaN_str v
        \<longrightarrow> parse_token ps (key @ ''='' @ v) = set_prop key (JNum (str_to_number v)) ps)"
proof (intro conjI impI)
  show "parseCommand ''apply-effect blur radius=5'' = (''apply-effect'', [(''radius'', JNum (Dec 5 0))])"
    by code_simp
  show "snd (parseCommand s) =
       foldl parse_token [] (filter (\<lambda>t. CHR ''='' \<in> set t) (tl (split_ws (trim s))))"
    by (simp add: parseCommand_def Let_def foldl_parse_token_filter [symmetric])
  show "parse_token ps tok = ps" if "CHR ''='' \<notin> set tok"
    using that by (rule parse_token_no_eq)
  show "parse_token ps (key @ ''='' @ v) = set_prop key (JNum (str_to_number v)) ps"
    if h: "key \<noteq> [] \<and> CHR ''='' \<notin> set key \<and> CHR ''='' \<notin> set v \<and> v \<noteq> [] \<and> \<not> isNaN_str v"
  proof -
    from h have "v \<noteq> ''true''" "v \<noteq> ''false''"
      using isNaN_true isNaN_false by auto
    with h have "coerce v = JNum (str_to_number v)"
      by (simp add: coerce_def)
    moreover from h have "parse_token ps (key @ CHR ''='' # v @ []) = set_prop key (coerce v) ps"
      by (subst parse_token_pair) (simp_all add: split_eq_no_eq)
    ultimately show ?thesis by simp
  qed
qed

theorem parseCommand_apply_effect_radius_witness:
  "CHR ''='' \<notin> set ''blur'' \<and> parse_token [] ''blur'' = []
   \<and> (''radius'' \<noteq> [] \<and> CHR ''='' \<notin> set ''radius'' \<and> CHR ''='' \<notin> set ''5'' \<and> ''5'' \<noteq> []
        \<and> \<not> isNaN_str ''5'')
   \<and> parse_token [] (''radius'' @ ''='' @ ''5'') = set_prop ''radius'' (JNum (str_to_number ''5'')) []"
proof -
  have h1: "CHR ''='' \<notin> set ''blur''"
    by simp
  have h2: "''radius'' \<noteq> [] \<and> CHR ''='' \<notin> set ''radius'' \<and> CHR ''='' \<notin> set ''5'' \<and> ''5'' \<noteq> []
        \<and> \<not> isNaN_str ''5''"
    by code_simp
  from parseCommand_apply_effect_radius [of "[]" "''blur''" "[]" "''radius''" "''5''"] h1 h2
  show ?thesis by blast
qed

text \<open>
  Claim C10. A token with two or more \<open>=\<close> is treated as the token made of its text before
  the second \<open>=\<close>: the key is the text before the first \<open>=\<close>, the value is the text between
  the first and the second \<open>=\<close>, and the rest of the token has no effect. Parsing has no error
  result; as for every token, the coerced value is stored when the key is not empty.
\<close>

theorem parse_token_second_equals:
  "2 \<le> count_list tok (CHR ''='') \<Longrightarrow>
   (let key = takeWhile (\<lambda>c. c \<noteq> CHR ''='') tok;
        v = takeWhile (\<lambda>c. c \<noteq> CHR ''='') (tl (dropWhile (\<lambda>c. c \<noteq> CHR ''='') tok))
    in parse_token ps tok = (if key \<noteq> [] then set_prop key (coerce v) ps else ps)
       \<and> parse_token ps tok = parse_token ps (key @ ''='' @ v)
       \<and> take 2 (split_eq tok) = [key, v])"
proof -
  assume a: "2 \<le> count_list tok (CHR ''='')"
  define key where "key = takeWhile (\<lambda>c. c \<noteq> CHR ''='') tok"
  define v where "v = takeWhile (\<lambda>c. c \<noteq> CHR ''='') (tl (dropWhile (\<lambda>c. c \<noteq> CHR ''='') tok))"
  from token_decompose [OF a] obtain rest where
    tok: "tok = key @ CHR ''='' # v @ CHR ''='' # rest"
    unfolding key_def v_def by blast
  have k: "CHR ''='' \<notin> set key" and vv: "CHR ''='' \<notin> set v"
    unfolding key_def v_def by (rule takeWhile_no_sep)+
  have s: "split_eq tok = key # v # split_eq rest"
    by (subst tok) (simp add: split_eq_append k vv)
  have 1: "parse_token ps tok = (if key \<noteq> [] then set_prop key (coerce v) ps else ps)"
    by (simp add: parse_token_def s)
  have "split_eq (key @ CHR ''='' # v) = [key, v]"
    by (simp add: split_eq_append k split_eq_no_eq vv)
  then have 2: "parse_token ps (key @ ''='' @ v) = (if key \<noteq> [] then set_prop key (coerce v) ps else ps)"
    by (simp add: parse_token_def)
  from 1 2 s show ?thesis
    unfolding Let_def key_def [symmetric] v_def [symmetric] by simp
qed

theorem parse_token_second_equals_witness:
  "2 \<le> count_list ''a=b=c'' (CHR ''='')
   \<and> parse_token [] ''a=b=c'' = [(''a'', JStr ''b'')]
   \<and> parse_token [] ''a=b=c'' = parse_token [] ''a=b''"
proof -
  have h: "2 \<le> count_list ''a=b=c'' (CHR ''='')"
    by simp
  have "coerce ''b'' = JStr ''b''"
    by code_simp
  with parse_token_second_equals [OF h, of "[]"] h show ?thesis
    by (auto simp add: set_prop_def Let_def)
qed

section \<open>Properties of the command handler\<close>

subsection \<open>What a handler returns and throws\<close>

lemma marked_ok_obj: "marked (ok_obj msg)"
  by (simp add: marked_def ok_obj_def get_prop_def or_else_def)

lemma marked_ok_result: "marked (ok_result msg r)"
  by (simp add: marked_def ok_result_def get_prop_def or_else_def)

lemma marked_fail_obj: "code \<noteq> 0 \<Longrightarrow> marked (fail_obj code msg)"
  by (simp add: marked_def fail_obj_def get_prop_def or_else_def num_of_int_def)

lemma handler_catch_Returns:
  "handler_catch eng code body = Returns r \<Longrightarrow>
     body = Returns r \<or>
     (\<exists>m. body = Throws (Thrown m) \<and>
          r = [(''success'', JBool False), (''errorCode'', num_of_int code), (''output'', m)])"
  by (auto simp: handler_catch_def split: call.splits thrown.splits)

lemma handler_catch_Throws:
  "handler_catch eng code body = Throws e \<Longrightarrow> e = Thrown (JStr (read_of_nullish eng))"
  by (auto simp: handler_catch_def split: call.splits thrown.splits)

lemma handler_catch_marked:
  assumes "code \<noteq> 0" and "\<And>r. body = Returns r \<Longrightarrow> marked r"
    and "handler_catch eng code body = Returns r"
  shows "marked r"
  using handler_catch_Returns [OF assms(3)] assms(1,2)
  by (auto simp: marked_def get_prop_def or_else_def num_of_int_def)

lemma and_then_Returns:
  "and_then c f = Returns r \<Longrightarrow> \<exists>x. c = Returns x \<and> f x = Returns r"
  by (auto simp: and_then_def split: call.splits)

lemmas body_splits = option.splits if_splits prod.splits

lemmas marked_intros = marked_ok_obj marked_ok_result marked_fail_obj

lemma openImage_marked: "openImage eng a ps = Returns r \<Longrightarrow> marked r"
  unfolding openImage_def
  by (erule handler_catch_marked [rotated 2])
     (auto simp: Let_def marked_intros split: body_splits)

lemma resize_marked: "resize eng a ps = Returns r \<Longrightarrow> marked r"
  unfolding resize_def
  by (erule handler_catch_marked [rotated 2])
     (auto simp: Let_def marked_intros dest!: and_then_Returns split: body_splits)

lemma rotate_image_marked: "rotate_image eng a ps = Returns r \<Longrightarrow> marked r"
  unfolding rotate_image_def
  by (erule handler_catch_marked [rotated 2])
     (auto simp: Let_def marked_intros dest!: and_then_Returns split: body_splits)

lemma flip_marked: "flip eng a ps = Returns r \<Longrightarrow> marked r"
  unfolding flip_def
  by (erule handler_catch_marked [rotated 2])
     (auto simp: Let_def marked_intros dest!: and_then_Returns split: body_splits)

lemma crop_marked: "crop eng a ps = Returns r \<Longrightarrow> marked r"
  unfolding crop_def
  by (erule handler_catch_marked [rotated 2])
     (auto simp: Let_def marked_intros dest!: and_then_Returns split: body_splits)

lemma applyEffect_marked: "applyEffect eng a ps = Returns r \<Longrightarrow> marked r"
  unfolding applyEffect_def
  by (erule handler_catch_marked [rotated 2])
     (auto simp: Let_def marked_intros dest!: and_then_Returns split: body_splits)

lemma addLayer_marked: "addLayer eng a ps = Returns r \<Longrightarrow> marked r"
  unfolding addLayer_def
  by (erule handler_catch_marked [rotated 2])
     (auto simp: Let_def marked_intros dest!: and_then_Returns split: body_splits)

lemma deleteLayer_marked: "deleteLayer eng a ps = Returns r \<Longrightarrow> marked r"
  unfolding deleteLayer_def
  by (erule handler_catch_marked [rotated 2])
     (auto simp: Let_def marked_intros dest!: and_then_Returns split: body_splits)

lemma mergeLayers_marked: "mergeLayers eng a ps = Returns r \<Longrightarrow> marked r"
  unfolding mergeLayers_def
  by (erule handler_catch_marked [rotated 2])
     (auto simp: Let_def marked_intros dest!: and_then_Returns split: body_splits)

lemma setOpacity_marked: "setOpacity eng a ps = Returns r \<Longrightarrow> marked r"
  unfolding setOpacity_def
  by (erule handler_catch_marked [rotated 2])
     (auto simp: Let_def marked_intros dest!: and_then_Returns split: body_splits)

lemma saveImage_marked: "saveImage eng a ps = Returns r \<Longrightarrow> marked r"
  unfolding saveImage_def
  by (erule handler_catch_marked [rotated 2])
     (auto simp: Let_def marked_intros dest!: and_then_Returns split: body_splits)

lemma getCanvasSize_marked: "getCanvasSize eng a ps = Returns r \<Longrightarrow> marked r"
  unfolding getCanvasSize_def
  by (erule handler_catch_marked [rotated 2])
     (auto simp: Let_def marked_intros dest!: and_then_Returns split: body_splits)

lemma getImageData_marked: "getImageData eng a ps = Returns r \<Longrightarrow> marked r"
  unfolding getImageData_def
  by (erule handler_catch_marked [rotated 2])
     (auto simp: Let_def marked_intros dest!: and_then_Returns split: body_splits)

lemma getImageInfo_marked: "getImageInfo eng a ps = Returns r \<Longrightarrow> marked r"
  unfolding getImageInfo_def
  by (erule handler_catch_marked [rotated 2])
     (auto simp: Let_def marked_intros dest!: and_then_Returns split: body_splits)

lemma listEffects_marked: "listEffects eng a ps = Returns r \<Longrightarrow> marked r"
  unfolding listEffects_def
  by (erule handler_catch_marked [rotated 2])
     (auto simp: Let_def marked_intros split: body_splits)

lemma listLayers_marked: "listLayers eng a ps = Returns r \<Longrightarrow> marked r"
  unfolding listLayers_def
  by (erule handler_catch_marked [rotated 2])
     (auto simp: Let_def marked_intros dest!: and_then_Returns split: body_splits)

lemma newImage_marked: "newImage eng a ps = Returns r \<Longrightarrow> marked r"
  unfolding newImage_def
  by (erule handler_catch_marked [rotated 2])
     (auto simp: Let_def marked_intros dest!: and_then_Returns split: body_splits)

lemma undo_marked: "undo eng a ps = Returns r \<Longrightarrow> marked r"
  unfolding undo_def
  by (erule handler_catch_marked [rotated 2])
     (auto simp: Let_def marked_intros dest!: and_then_Returns split: body_splits)

lemma redo_marked: "redo eng a ps = Returns r \<Longrightarrow> marked r"
  unfolding redo_def
  by (erule handler_catch_marked [rotated 2])
     (auto simp: Let_def marked_intros dest!: and_then_Returns split: body_splits)

lemmas handler_defs =
  openImage_def resize_def rotate_image_def flip_def crop_def applyEffect_def addLayer_def
  deleteLayer_def mergeLayers_def setOpacity_def saveImage_def getCanvasSize_def
  getImageData_def getImageInfo_def listEffects_def listLayers_def newImage_def undo_def redo_def

lemma table_marked:
  "(name, h) \<in> set (handler_table eng a) \<Longrightarrow> h ps = Returns r \<Longrightarrow> marked r"
  unfolding handler_table_def
  by (auto intro: openImage_marked resize_marked rotate_image_marked flip_marked crop_marked
        applyEffect_marked addLayer_marked deleteLayer_marked mergeLayers_marked setOpacity_marked
        saveImage_marked getCanvasSize_marked getImageData_marked getImageInfo_marked
        listEffects_marked listLayers_marked newImage_marked undo_marked redo_marked)

lemma table_Throws:
  "(name, h) \<in> set (handler_table eng a) \<Longrightarrow> h ps = Throws e \<Longrightarrow>
     e = Thrown (JStr (read_of_nullish eng))"
  unfolding handler_table_def
  by (auto simp: handler_defs dest: handler_catch_Throws)

lemma inherited_member_Throws:
  "inherited_member eng name = Some h \<Longrightarrow> h ps = Throws e \<Longrightarrow> \<exists>msg. e = Thrown (JStr msg)"
  by (auto simp: inherited_member_def split: if_splits)

lemma inherited_member_marked:
  "inherited_member eng name = Some h \<Longrightarrow> name \<noteq> ''constructor'' \<Longrightarrow> h ps = Returns r \<Longrightarrow>
     marked r"
  by (auto simp: inherited_member_def marked_def get_prop_def or_else_def split: if_splits)

lemma handlers_Throws:
  "handlers eng a name = Some h \<Longrightarrow> h ps = Throws e \<Longrightarrow> \<exists>msg. e = Thrown (JStr msg)"
  by (auto simp: handlers_def split: option.splits
        dest: map_of_SomeD table_Throws inherited_member_Throws)

lemma handlers_marked:
  "handlers eng a name = Some h \<Longrightarrow> name \<noteq> ''constructor'' \<Longrightarrow> h ps = Returns r \<Longrightarrow> marked r"
  by (auto simp: handlers_def split: option.splits
        dest: map_of_SomeD table_marked inherited_member_marked)

subsection \<open>The three ways out of \<open>run\<close>\<close>

lemma run_not_initialized:
  "Layers a = None \<Longrightarrow>
   run eng a c ps = Returns [(''success'', JBool False), (''errorCode'', num_of_int 1),
                             (''output'', JStr ''miniPaint not initialized'')]"
  by (simp add: run_def run_body_def)

lemma run_unknown:
  "Layers a \<noteq> None \<Longrightarrow> handlers eng a (to_string (fst (dispatch_target c ps))) = None \<Longrightarrow>
   run eng a c ps =
     Returns [(''success'', JBool False), (''errorCode'', num_of_int 2),
              (''output'', JStr (''Unknown command: '' @ to_string (fst (dispatch_target c ps))))]"
  by (simp add: run_def run_body_def case_prod_beta)

lemma run_handler_Returns:
  "Layers a \<noteq> None \<Longrightarrow> handlers eng a (to_string (fst (dispatch_target c ps))) = Some h \<Longrightarrow>
   h (snd (dispatch_target c ps)) = Returns r \<Longrightarrow>
   run eng a c ps =
     Returns [(''success'', JBool (get_prop r ''success'' \<noteq> JBool False)),
              (''errorCode'', or_else (get_prop r ''errorCode'') (num_of_int 0)),
              (''output'', or_else (get_prop r ''output'') (JStr [])),
              (''result'', or_else (get_prop r ''result'') (JStr []))]"
  by (simp add: run_def run_body_def and_then_def case_prod_beta)

lemma run_handler_Throws:
  "Layers a \<noteq> None \<Longrightarrow> handlers eng a (to_string (fst (dispatch_target c ps))) = Some h \<Longrightarrow>
   h (snd (dispatch_target c ps)) = Throws (Thrown m) \<Longrightarrow>
   run eng a c ps =
     Returns [(''success'', JBool False), (''errorCode'', num_of_int 99),
              (''output'', JStr (''Error: '' @ to_string m))]"
  by (simp add: run_def run_body_def and_then_def case_prod_beta)

lemma run_cases:
  obtains
    (not_initialized) "Layers a = None"
  | (unknown) "Layers a \<noteq> None" "handlers eng a (to_string (fst (dispatch_target c ps))) = None"
  | (returned) h r where "Layers a \<noteq> None"
      "handlers eng a (to_string (fst (dispatch_target c ps))) = Some h"
      "h (snd (dispatch_target c ps)) = Returns r"
  | (thrown) h msg where "Layers a \<noteq> None"
      "handlers eng a (to_string (fst (dispatch_target c ps))) = Some h"
      "h (snd (dispatch_target c ps)) = Throws (Thrown (JStr msg))"
proof (cases "Layers a = None")
  case True
  then show ?thesis by (rule not_initialized)
next
  case init: False
  show ?thesis
  proof (cases "handlers eng a (to_string (fst (dispatch_target c ps)))")
    case None
    with init show ?thesis by (rule unknown)
  next
    case (Some h)
    show ?thesis
    proof (cases "h (snd (dispatch_target c ps))")
      case (Returns r)
      with init Some show ?thesis by (rule returned)
    next
      case (Throws e)
      with handlers_Throws [OF Some] obtain msg where "e = Thrown (JStr msg)" by blast
      with init Some Throws show ?thesis by (auto intro: thrown)
    qed
  qed
qed

lemma handler_table_names: "map fst (handler_table eng a) = registered_methods"
  by (simp add: handler_table_def registered_methods_def)

lemma run_string_ignores_params: "run eng a (JStr s) ps = run eng a (JStr s) []"
  by (simp add: run_def run_body_def dispatch_target_def)

text \<open>
  Claim C1, at the call of the claim. \<open>run\<close> is given the string \<open>resize\<close> and the parameters
  \<open>{width: 800, height: 600}\<close>, and the editor is initialized and has a \<open>resize\<close> that returns.
  Since the first argument is a string, \<open>run\<close> parses it, finds no parameter in it, and calls
  the handler with the empty object: the call fails with the code 20. The same request written
  as one command string gives the answer of the claim.
\<close>

theorem run_resize_drops_params:
  "run example_engine example_app (JStr ''resize'')
       [(''width'', num_of_int 800), (''height'', num_of_int 600)]
     = Returns [(''success'', JBool False), (''errorCode'', num_of_int 20),
                (''output'', JStr ''width and height parameters required''),
                (''result'', JStr [])]
   \<and> run example_engine example_app (JStr ''resize width=800 height=600'') []
     = Returns [(''success'', JBool True), (''errorCode'', num_of_int 0),
                (''output'', JStr ''Resized to 800x600''), (''result'', JStr [])]"
  by code_simp

text \<open>
  Claim C5, as the claim states it, fails for an unknown command: the object that \<open>run\<close>
  returns has no property \<open>result\<close>.
\<close>

theorem run_unknown_command_without_result:
  "run example_engine example_app (JStr ''bogus'') []
     = Returns [(''success'', JBool False), (''errorCode'', num_of_int 2),
                (''output'', JStr ''Unknown command: bogus'')]
   \<and> map_of [(''success'', JBool False), (''errorCode'', num_of_int 2),
              (''output'', JStr ''Unknown command: bogus'')] ''result'' = None"
  by code_simp

text \<open>
  Claim C5, amended. Whatever \<open>run\<close> returns for a method other than \<open>constructor\<close> has
  \<open>success\<close> equal to \<open>errorCode == 0\<close> and has a property \<open>output\<close>. It has a property
  \<open>result\<close> exactly when it is made from the object that a handler returned; then \<open>result\<close>
  is that object's \<open>result\<close>, or the empty string when that is missing or falsy. When the
  editor is not initialized, when the command is unknown and when the handler throws, there
  is no property \<open>result\<close>.
\<close>

theorem run_envelope_shape:
  assumes "to_string (fst (dispatch_target c ps)) \<noteq> ''constructor''"
    and "run eng a c ps = Returns env"
  shows "consistent env \<and> map_of env ''output'' \<noteq> None
     \<and> (map_of env ''result'' \<noteq> None) =
         (Layers a \<noteq> None \<and>
          (\<exists>h r. handlers eng a (to_string (fst (dispatch_target c ps))) = Some h
                 \<and> h (snd (dispatch_target c ps)) = Returns r))
     \<and> (\<forall>h r. Layers a \<noteq> None
              \<and> handlers eng a (to_string (fst (dispatch_target c ps))) = Some h
              \<and> h (snd (dispatch_target c ps)) = Returns r
            \<longrightarrow> get_prop env ''result'' = or_else (get_prop r ''result'') (JStr []))"
proof (cases rule: run_cases [where a = a and eng = eng and c = c and ps = ps])
  case not_initialized
  with assms(2) show ?thesis
    by (auto simp: run_not_initialized consistent_def get_prop_def num_of_int_def)
next
  case unknown
  with assms(2) show ?thesis
    by (auto simp: run_unknown consistent_def get_prop_def num_of_int_def)
next
  case (returned h r)
  from handlers_marked [OF returned(2) assms(1) returned(3)] have "marked r" .
  with assms(2) returned show ?thesis
    by (auto simp: run_handler_Returns consistent_def marked_def get_prop_def)
next
  case (thrown h msg)
  with assms(2) show ?thesis
    by (auto simp: run_handler_Throws consistent_def get_prop_def num_of_int_def)
qed

theorem run_envelope_shape_witness:
  "to_string (fst (dispatch_target (JStr ''resize width=800 height=600'') [])) \<noteq> ''constructor''
   \<and> run example_engine example_app (JStr ''resize width=800 height=600'') []
       = Returns [(''success'', JBool True), (''errorCode'', num_of_int 0),
                  (''output'', JStr ''Resized to 800x600''), (''result'', JStr [])]
   \<and> consistent [(''success'', JBool True), (''errorCode'', num_of_int 0),
                  (''output'', JStr ''Resized to 800x600''), (''result'', JStr [])]
   \<and> map_of [(''success'', JBool True), (''errorCode'', num_of_int 0),
              (''output'', JStr ''Resized to 800x600''), (''result'', JStr [])] ''output'' \<noteq> None
   \<and> Layers example_app \<noteq> None
   \<and> handlers example_engine example_app
         (to_string (fst (dispatch_target (JStr ''resize width=800 height=600'') [])))
       = Some (resize example_engine example_app)
   \<and> resize example_engine example_app
         (snd (dispatch_target (JStr ''resize width=800 height=600'') []))
       = Returns (ok_obj ''Resized to 800x600'')
   \<and> get_prop [(''success'', JBool True), (''errorCode'', num_of_int 0),
                (''output'', JStr ''Resized to 800x600''), (''result'', JStr [])] ''result''
       = or_else (get_prop (ok_obj ''Resized to 800x600'') ''result'') (JStr [])"
proof -
  let ?c = "JStr ''resize width=800 height=600''"
  let ?env = "[(''success'', JBool True), (''errorCode'', num_of_int 0),
               (''output'', JStr ''Resized to 800x600''), (''result'', JStr [])]"
  have h1: "to_string (fst (dispatch_target ?c [])) \<noteq> ''constructor''"
    by code_simp
  have h2: "run example_engine example_app ?c [] = Returns ?env"
    by code_simp
  have m: "to_string (fst (dispatch_target ?c [])) = ''resize''"
    by code_simp
  have h3: "Layers example_app \<noteq> None"
    by (simp add: example_app_def)
  have h4: "handlers example_engine example_app (to_string (fst (dispatch_target ?c [])))
       = Some (resize example_engine example_app)"
    unfolding m by (simp add: handlers_def handler_table_def)
  have h5: "resize example_engine example_app (snd (dispatch_target ?c []))
       = Returns (ok_obj ''Resized to 800x600'')"
    by code_simp
  note inst = run_envelope_shape [OF h1 h2]
  have a: "consistent ?env" and b: "map_of ?env ''output'' \<noteq> None"
    using inst by blast+
  have c: "get_prop ?env ''result'' = or_else (get_prop (ok_obj ''Resized to 800x600'') ''result'') (JStr [])"
    using inst [THEN conjunct2, THEN conjunct2, THEN conjunct2, THEN spec, THEN spec, THEN mp,
                OF conjI [OF h3 conjI [OF h4 h5]]] .
  from h1 h2 a b h3 h4 h5 c show ?thesis
    by (intro conjI)
qed

text \<open>
  Claim C6. \<open>run\<close> always returns an object and never throws. When the handler that it calls
  throws, what is thrown has a message, and \<open>run\<close> returns \<open>success\<close> false, the code 99 and
  the output \<open>Error: \<close> followed by the message.
\<close>

theorem run_catches_handler_failure:
  "(\<exists>env. run eng a c ps = Returns env)
   \<and> (Layers a \<noteq> None
        \<and> handlers eng a (to_string (fst (dispatch_target c ps))) = Some h
        \<and> h (snd (dispatch_target c ps)) = Throws e
      \<longrightarrow> (\<exists>msg. e = Thrown (JStr msg)
             \<and> run eng a c ps =
                 Returns [(''success'', JBool False), (''errorCode'', num_of_int 99),
                          (''output'', JStr (''Error: '' @ msg))]))"
proof (intro conjI impI)
  show "\<exists>env. run eng a c ps = Returns env"
  proof (cases rule: run_cases [where a = a and eng = eng and c = c and ps = ps])
    case not_initialized
    then show ?thesis by (simp add: run_not_initialized)
  next
    case unknown
    then show ?thesis by (simp add: run_unknown)
  next
    case (returned h r)
    then show ?thesis by (simp add: run_handler_Returns)
  next
    case (thrown h msg)
    then show ?thesis by (simp add: run_handler_Throws)
  qed
next
  assume h: "Layers a \<noteq> None
        \<and> handlers eng a (to_string (fst (dispatch_target c ps))) = Some h
        \<and> h (snd (dispatch_target c ps)) = Throws e"
  with handlers_Throws obtain msg where "e = Thrown (JStr msg)" by blast
  with h show "\<exists>msg. e = Thrown (JStr msg)
             \<and> run eng a c ps =
                 Returns [(''success'', JBool False), (''errorCode'', num_of_int 99),
                          (''output'', JStr (''Error: '' @ msg))]"
    by (simp add: run_handler_Throws)
qed

theorem run_catches_handler_failure_witness:
  "Layers failing_app \<noteq> None
   \<and> handlers example_engine failing_app
        (to_string (fst (dispatch_target (JStr ''resize width=800 height=600'') [])))
       = Some (resize example_engine failing_app)
   \<and> resize example_engine failing_app
        (snd (dispatch_target (JStr ''resize width=800 height=600'') []))
       = Throws (Thrown (JStr ''Cannot read properties of undefined''))
   \<and> run example_engine failing_app (JStr ''resize width=800 height=600'') []
       = Returns [(''success'', JBool False), (''errorCode'', num_of_int 99),
                  (''output'', JStr ''Error: Cannot read properties of undefined'')]"
proof -
  have h1: "Layers failing_app \<noteq> None"
    by (simp add: failing_app_def)
  have m: "to_string (fst (dispatch_target (JStr ''resize width=800 height=600'') [])) = ''resize''"
    by code_simp
  have h2: "handlers example_engine failing_app
        (to_string (fst (dispatch_target (JStr ''resize width=800 height=600'') [])))
       = Some (resize example_engine failing_app)"
    unfolding m by (simp add: handlers_def handler_table_def)
  have h3: "resize example_engine failing_app
        (snd (dispatch_target (JStr ''resize width=800 height=600'') []))
       = Throws (Thrown (JStr ''Cannot read properties of undefined''))"
    by code_simp
  from run_catches_handler_failure
         [of example_engine failing_app "JStr ''resize width=800 height=600''" "[]"
             "resize example_engine failing_app"
             "Thrown (JStr ''Cannot read properties of undefined'')"]
       h1 h2 h3
  show ?thesis by simp
qed

subsection \<open>Required parameters\<close>















































section \<open>Properties of the control bus\<close>

lemma settle_simps [simp]:
  "requestId (settle p out s) = requestId s"
  "pendingRequests (settle p out s) = pendingRequests s"
  "timers (settle p out s) = timers s"
  "settled (settle p out s) = settled s @ [(p, out, now s)]"
  "now (settle p out s) = now s"
  "timeout (settle p out s) = timeout s"
  "outbox (settle p out s) = outbox s"
  by (simp_all add: settle_def)

lemma promises_settle:
  "promises (settle p out s) =
     (if promises s p = Some Pending then (promises s)(p \<mapsto> out) else promises s)"
  by (simp add: settle_def)

lemma invariant_new_bridge: "bridge_invariant (new_bridge t)"
  by (simp add: bridge_invariant_def new_bridge_def)

lemma invariant_sendRPC:
  assumes "bridge_invariant s"
  shows "bridge_invariant (snd (sendRPC method ps s))"
  using assms unfolding bridge_invariant_def sendRPC_def Let_def
  by (auto simp: le_Suc_eq dest: bspec)

lemma invariant_settle_entry:
  assumes "bridge_invariant s" "pendingRequests s k = Some e"
  shows "bridge_invariant ((settle e out (s\<lparr>timers := (timers s)(e := None)\<rparr>))
            \<lparr>pendingRequests := (pendingRequests s)(k := None)\<rparr>)"
proof -
  from assms have "e = k" by (auto simp: bridge_invariant_def)
  with assms show ?thesis
    unfolding bridge_invariant_def
    by (auto split: if_splits)
qed

lemma invariant_on_message:
  assumes "bridge_invariant s"
  shows "bridge_invariant (director_on_message d s)"
proof (cases d)
  case None
  with assms show ?thesis by (simp add: director_on_message_def)
next
  case (Some m)
  show ?thesis
  proof (cases "m_type m = JStr ''rpc-response''")
    case False
    with Some assms show ?thesis by (simp add: director_on_message_def)
  next
    case True
    show ?thesis
    proof (cases "pending_entry s (m_id m)")
      case None
      with Some True assms show ?thesis by (simp add: director_on_message_def)
    next
      case (Some ke)
      obtain k e where ke: "ke = (k, e)" by (cases ke)
      with Some have p: "pendingRequests s k = Some e"
        by (auto simp: pending_entry_def split: option.splits)
      from \<open>d = Some m\<close> True Some ke invariant_settle_entry [OF assms p] show ?thesis
        by (simp add: director_on_message_def entry_resolve_def entry_reject_def Let_def)
    qed
  qed
qed

lemma invariant_timer_fires:
  assumes "bridge_invariant s"
  shows "bridge_invariant (timer_fires i s)"
proof (cases "timers s i")
  case None
  with assms show ?thesis by (simp add: timer_fires_def)
next
  case (Some tm)
  with assms have p: "pendingRequests s i = Some i" by (auto simp: bridge_invariant_def)
  show ?thesis
  proof (cases "now s < due tm")
    case True
    with Some assms show ?thesis by (simp add: timer_fires_def)
  next
    case False
    have "bridge_invariant (settle i out (s\<lparr>timers := (timers s)(i := None),
                    pendingRequests := (pendingRequests s)(i := None)\<rparr>))" for out
      using assms p unfolding bridge_invariant_def by (auto split: if_splits)
    with Some False show ?thesis by (simp add: timer_fires_def)
  qed
qed

lemma invariant_step: "bridge_invariant s \<Longrightarrow> bridge_invariant (step s e)"
  by (cases e)
     (simp_all add: invariant_sendRPC invariant_on_message invariant_timer_fires,
      simp_all add: bridge_invariant_def)

lemma invariant_run_events: "bridge_invariant s \<Longrightarrow> bridge_invariant (run_events s es)"
  unfolding run_events_def
  by (induction es arbitrary: s) (simp_all add: invariant_step)

lemma on_message_unknown:
  "pending_entry s (m_id m) = None \<Longrightarrow> director_on_message (Some m) s = s"
  by (simp add: director_on_message_def)

lemma on_message_pending:
  assumes "m_type m = JStr ''rpc-response''" "pending_entry s (m_id m) = Some (k, e)"
  shows "pendingRequests (director_on_message (Some m) s) k = None
       \<and> timers (director_on_message (Some m) s) e = None
       \<and> (\<exists>out. settled (director_on_message (Some m) s) = settled s @ [(e, out, now s)])"
  using assms
  by (simp add: director_on_message_def entry_resolve_def entry_reject_def Let_def)

lemma timer_fires_due:
  assumes "timers s i = Some tm" "due tm \<le> now s"
  shows "pendingRequests (timer_fires i s) i = None \<and> timers (timer_fires i s) i = None
       \<and> settled (timer_fires i s) =
           settled s @ [(i, Rejected (timeout_message i (for_method tm) (timeout s)), now s)]"
  using assms by (simp add: timer_fires_def)

lemma timer_fires_early:
  "timers s i = Some tm \<Longrightarrow> now s < due tm \<Longrightarrow> timer_fires i s = s"
  by (simp add: timer_fires_def)

lemma timer_fires_unset: "timers s i = None \<Longrightarrow> timer_fires i s = s"
  by (simp add: timer_fires_def)

lemma pending_entry_own:
  "bridge_invariant s \<Longrightarrow> pending_entry s v = Some (k, e) \<Longrightarrow> e = k \<and> map_key v = Some k"
  by (auto simp: pending_entry_def bridge_invariant_def split: option.splits)

lemma settled_no_entry:
  "bridge_invariant s \<Longrightarrow> i \<in> set (map fst (settled s)) \<Longrightarrow>
   pendingRequests s i = None \<and> timers s i = None"
  unfolding bridge_invariant_def
  by (metis not_Some_eq)

lemmas bridge_defs = run_events_def sendRPC_def Let_def new_bridge_def director_on_message_def
  pending_entry_def map_key_def entry_resolve_def entry_reject_def settle_def timer_fires_def
  undo_response_def num_of_int_def timer_delay_def

text \<open>
  Claim C2. However a bridge is driven, no promise has more than one call of its \<open>resolve\<close>
  or \<open>reject\<close>, and a request that had its call has neither an entry in the table nor a
  timer. A response that finds an entry removes it, clears the timer of the request and makes
  the one call. A timer that fires removes the entry. A response whose id has no entry leaves
  the whole state as it is, the table and the promises included; the listener has no error
  path.
\<close>

theorem at_most_one_resolution:
  "distinct (map fst (settled (run_events (new_bridge t) es)))
   \<and> (\<forall>i \<in> set (map fst (settled (run_events (new_bridge t) es))).
        pendingRequests (run_events (new_bridge t) es) i = None
        \<and> timers (run_events (new_bridge t) es) i = None)
   \<and> (s = run_events (new_bridge t) es \<and> m_type m = JStr ''rpc-response''
        \<and> pending_entry s (m_id m) = Some (k, e)
      \<longrightarrow> e = k \<and> pendingRequests (director_on_message (Some m) s) k = None
          \<and> timers (director_on_message (Some m) s) k = None
          \<and> (\<exists>out. settled (director_on_message (Some m) s) = settled s @ [(k, out, now s)]))
   \<and> (timers s i = Some tm \<and> due tm \<le> now s
      \<longrightarrow> pendingRequests (timer_fires i s) i = None \<and> timers (timer_fires i s) i = None)
   \<and> (pending_entry s (m_id m) = None \<longrightarrow> director_on_message (Some m) s = s)"
proof -
  have inv: "bridge_invariant (run_events (new_bridge t) es)"
    by (intro invariant_run_events invariant_new_bridge)
  have 1: "distinct (map fst (settled (run_events (new_bridge t) es)))"
    using inv by (simp add: bridge_invariant_def)
  have 2: "\<forall>i \<in> set (map fst (settled (run_events (new_bridge t) es))).
        pendingRequests (run_events (new_bridge t) es) i = None
        \<and> timers (run_events (new_bridge t) es) i = None"
    using settled_no_entry [OF inv] by blast
  have 3: "e = k \<and> pendingRequests (director_on_message (Some m) s) k = None
          \<and> timers (director_on_message (Some m) s) k = None
          \<and> (\<exists>out. settled (director_on_message (Some m) s) = settled s @ [(k, out, now s)])"
    if h: "s = run_events (new_bridge t) es \<and> m_type m = JStr ''rpc-response''
        \<and> pending_entry s (m_id m) = Some (k, e)"
  proof -
    from h have t: "m_type m = JStr ''rpc-response''"
      and p: "pending_entry s (m_id m) = Some (k, e)" by blast+
    from h inv have "bridge_invariant s" by blast
    with p have "e = k" using pending_entry_own by blast
    with on_message_pending [OF t p] show ?thesis by simp
  qed
  have 4: "pendingRequests (timer_fires i s) i = None \<and> timers (timer_fires i s) i = None"
    if "timers s i = Some tm \<and> due tm \<le> now s"
    using that timer_fires_due [of s i tm] by simp
  have 5: "director_on_message (Some m) s = s" if "pending_entry s (m_id m) = None"
    using that by (rule on_message_unknown)
  from 1 2 3 4 5 show ?thesis by blast
qed


theorem at_most_one_resolution_witness:
  "map fst (settled (run_events (new_bridge 0)
       [Send (JStr ''undo'') [], Deliver (Some undo_response), Deliver (Some undo_response),
        Tick 30000, Fire 1])) = [1]
   \<and> pending_entry (run_events (new_bridge 0)
          [Send (JStr ''undo'') [], Deliver (Some undo_response)]) (m_id undo_response) = None
   \<and> director_on_message (Some undo_response)
        (run_events (new_bridge 0) [Send (JStr ''undo'') [], Deliver (Some undo_response)])
       = run_events (new_bridge 0) [Send (JStr ''undo'') [], Deliver (Some undo_response)]
   \<and> (1::nat) \<in> set (map fst (settled (run_events (new_bridge 0)
          [Send (JStr ''undo'') [], Deliver (Some undo_response)])))
   \<and> timers (run_events (new_bridge 0)
          [Send (JStr ''undo'') [], Deliver (Some undo_response)]) 1 = None
   \<and> m_type undo_response = JStr ''rpc-response''
   \<and> pending_entry (run_events (new_bridge 0) [Send (JStr ''undo'') []]) (m_id undo_response)
       = Some (1, 1)
   \<and> pendingRequests (director_on_message (Some undo_response)
          (run_events (new_bridge 0) [Send (JStr ''undo'') []])) 1 = None
   \<and> timers (run_events (new_bridge 0) [Send (JStr ''undo'') [], Tick 30000]) 1
       = Some \<lparr>due = 30000, for_method = JStr ''undo''\<rparr>
   \<and> due \<lparr>due = 30000, for_method = JStr ''undo''\<rparr>
       \<le> now (run_events (new_bridge 0) [Send (JStr ''undo'') [], Tick 30000])
   \<and> pendingRequests (timer_fires 1
          (run_events (new_bridge 0) [Send (JStr ''undo'') [], Tick 30000])) 1 = None"
proof -
  let ?es = "[Send (JStr ''undo'') [], Deliver (Some undo_response)]"
  let ?r = "run_events (new_bridge 0) ?es"
  let ?q = "run_events (new_bridge 0) [Send (JStr ''undo'') []]"
  let ?p = "run_events (new_bridge 0) [Send (JStr ''undo'') [], Tick 30000]"
  let ?tm = "\<lparr>due = 30000, for_method = JStr ''undo''\<rparr>"
  have a: "map fst (settled (run_events (new_bridge 0)
       [Send (JStr ''undo'') [], Deliver (Some undo_response), Deliver (Some undo_response),
        Tick 30000, Fire 1])) = [1]"
    by (simp add: bridge_defs)
  have b: "pending_entry ?r (m_id undo_response) = None"
    by (simp add: bridge_defs)
  have c: "(1::nat) \<in> set (map fst (settled ?r))"
    by (simp add: bridge_defs)
  note inst = at_most_one_resolution [of 0 ?es ?r undo_response]
  have d: "director_on_message (Some undo_response) ?r = ?r"
    by (rule inst [THEN conjunct2, THEN conjunct2, THEN conjunct2, THEN conjunct2, THEN mp, OF b])
  have e: "timers ?r 1 = None"
    by (rule inst [THEN conjunct2, THEN conjunct1, THEN bspec, OF c, THEN conjunct2])
  have f: "?q = run_events (new_bridge 0) [Send (JStr ''undo'') []]
        \<and> m_type undo_response = JStr ''rpc-response''
        \<and> pending_entry ?q (m_id undo_response) = Some (1, 1)"
    by (simp add: bridge_defs)
  have g: "pendingRequests (director_on_message (Some undo_response) ?q) 1 = None"
    by (rule at_most_one_resolution
               [where t = 0 and es = "[Send (JStr ''undo'') []]" and s = ?q
                  and m = undo_response and k = 1 and e = 1,
                THEN conjunct2, THEN conjunct2, THEN conjunct1, THEN mp, OF f,
                THEN conjunct2, THEN conjunct1])
  have h: "timers ?p 1 = Some ?tm \<and> due ?tm \<le> now ?p"
    by (simp add: bridge_defs)
  have i: "pendingRequests (timer_fires 1 ?p) 1 = None"
    by (rule at_most_one_resolution
               [where s = ?p and i = 1 and tm = ?tm,
                THEN conjunct2, THEN conjunct2, THEN conjunct2, THEN conjunct1, THEN mp, OF h,
                THEN conjunct1])
  from a b c d e f g h i show ?thesis
    by blast
qed

lemma sendRPC_effect:
  assumes "sendRPC method ps s = (i, s1)"
  shows "i = requestId s + 1" "requestId s1 = i" "pendingRequests s1 i = Some i"
    "timers s1 i = Some \<lparr>due = now s + timer_delay (timeout s), for_method = method\<rparr>"
    "promises s1 i = Some Pending" "s1 = snd (sendRPC method ps s)"
  using assms by (auto simp: sendRPC_def Let_def)

lemma timer_delay_in_range: "ms < 2 ^ 31 \<Longrightarrow> timer_delay ms = ms"
  by (simp add: timer_delay_def Let_def)

lemma outstanding_step:
  assumes "bridge_invariant s" "i \<le> requestId s" "pendingRequests s i = Some i"
    "timers s i = Some tm" "promises s i = Some Pending" "\<not> answers i e" "e \<noteq> Fire i"
  shows "i \<le> requestId (step s e) \<and> pendingRequests (step s e) i = Some i
       \<and> timers (step s e) i = Some tm \<and> promises (step s e) i = Some Pending"
proof (cases e)
  case (Send meth ps)
  with assms show ?thesis by (simp add: sendRPC_def Let_def)
next
  case (Deliver d)
  show ?thesis
  proof (cases d)
    case None
    with Deliver assms show ?thesis by (simp add: director_on_message_def)
  next
    case (Some m)
    show ?thesis
    proof (cases "pending_entry s (m_id m)")
      case None
      with Deliver Some assms show ?thesis by (simp add: director_on_message_def)
    next
      case (Some ke)
      obtain k e' where ke: "ke = (k, e')" by (cases ke)
      with Some assms(1) have own: "e' = k" "map_key (m_id m) = Some k"
        using pending_entry_own by blast+
      show ?thesis
      proof (cases "m_type m = JStr ''rpc-response''")
        case False
        with Deliver \<open>d = Some m\<close> assms show ?thesis by (simp add: director_on_message_def)
      next
        case True
        with own assms(6) Deliver \<open>d = Some m\<close> have "k \<noteq> i" by (auto simp: answers_def)
        with Deliver \<open>d = Some m\<close> True Some ke own assms show ?thesis
          by (simp add: director_on_message_def entry_resolve_def entry_reject_def Let_def
                promises_settle)
      qed
    qed
  qed
next
  case (Fire j)
  with assms(7) have "j \<noteq> i" by simp
  with Fire assms show ?thesis
    by (simp add: timer_fires_def promises_settle split: option.splits)
next
  case (Tick dt)
  with assms show ?thesis by simp
next
  case (Configure ms)
  with assms show ?thesis by simp
qed

lemma outstanding_run:
  assumes "bridge_invariant s" "i \<le> requestId s" "pendingRequests s i = Some i"
    "timers s i = Some tm" "promises s i = Some Pending"
    "\<forall>e \<in> set es. \<not> answers i e \<and> e \<noteq> Fire i"
  shows "pendingRequests (run_events s es) i = Some i
       \<and> timers (run_events s es) i = Some tm \<and> promises (run_events s es) i = Some Pending"
  using assms
proof (induction es arbitrary: s)
  case Nil
  then show ?case by (simp add: run_events_def)
next
  case (Cons e es)
  from Cons.prems have e: "\<not> answers i e" "e \<noteq> Fire i" by simp_all
  from outstanding_step [OF Cons.prems(1-5) e] invariant_step [OF Cons.prems(1), of e] Cons.prems(6)
  have "pendingRequests (run_events (step s e) es) i = Some i
       \<and> timers (run_events (step s e) es) i = Some tm
       \<and> promises (run_events (step s e) es) i = Some Pending"
    by (intro Cons.IH) simp_all
  then show ?case by (simp add: run_events_def)
qed

lemma timeout_unconfigured:
  "\<forall>e \<in> set es. \<forall>ms. e \<noteq> Configure ms \<Longrightarrow> timeout (run_events s es) = timeout s"
  unfolding run_events_def
proof (induction es arbitrary: s)
  case Nil
  then show ?case by simp
next
  case (Cons e es)
  have "timeout (step s e) = timeout s"
    using Cons.prems
    by (cases e)
       (auto simp: sendRPC_def Let_def director_on_message_def entry_resolve_def entry_reject_def
          timer_fires_def split: option.splits)
  with Cons show ?case by simp
qed

text \<open>
  Claim C4, as the claim states it, fails for a timeout of \<open>2 ^ 31\<close> milliseconds or more:
  \<open>setTimeout\<close> reads the delay as a signed integer of 32 bits. With the timeout set to
  2147483648, a request that gets no response is rejected, and its entry removed, one
  millisecond after the call.
\<close>

theorem timeout_beyond_int32_fires_at_once:
  "promises (run_events (new_bridge 0)
       [Configure 2147483648, Send (JStr ''undo'') [], Tick 1, Fire 1]) 1
     = Some (Rejected ''RPC request 1 (undo) timed out after 2147483648ms'')
   \<and> pendingRequests (run_events (new_bridge 0)
         [Configure 2147483648, Send (JStr ''undo'') [], Tick 1, Fire 1]) 1 = None
   \<and> timeout (run_events (new_bridge 0) [Configure 2147483648]) = 2147483648
   \<and> now (run_events (new_bridge 0)
         [Configure 2147483648, Send (JStr ''undo'') [], Tick 1, Fire 1]) = 1"
  by (simp add: bridge_defs timeout_message_def nat_digits.simps digit_char_def)

text \<open>
  Claim C4, amended. While the timeout is below \<open>2 ^ 31\<close> milliseconds, as the default
  30000 is, a call of \<open>sendRPC\<close> sets a timer that is due \<open>timeout\<close> milliseconds after
  the call. As long as no response to the request is delivered and the timer has not fired,
  the entry, the timer and the pending promise stay. The timer does not fire before it is
  due. When it fires, the entry is removed then, and the promise is rejected with the message
  that names the request id and the method. Time is the clock of the model: a timer fires
  when the event loop runs it, at or after the time it is due.
\<close>

theorem timeout_rejects_after_window:
  assumes "s = run_events (new_bridge t) es0"
    and "timeout s < 2 ^ 31"
    and "sendRPC method ps s = (i, s1)"
    and "\<forall>e \<in> set es. \<not> answers i e \<and> e \<noteq> Fire i"
    and "s2 = run_events s1 es"
  shows "pendingRequests s2 i = Some i \<and> promises s2 i = Some Pending
       \<and> timers s2 i = Some \<lparr>due = now s + timeout s, for_method = method\<rparr>
       \<and> (now s2 < now s + timeout s \<longrightarrow> timer_fires i s2 = s2)
       \<and> (now s + timeout s \<le> now s2 \<longrightarrow>
            pendingRequests (timer_fires i s2) i = None
            \<and> promises (timer_fires i s2) i = Some (Rejected (timeout_message i method (timeout s2)))
            \<and> settled (timer_fires i s2) =
                settled s2 @ [(i, Rejected (timeout_message i method (timeout s2)), now s2)])
       \<and> ((\<forall>e \<in> set es0. \<forall>ms. e \<noteq> Configure ms) \<longrightarrow> timeout s = 30000)"
proof -
  have inv: "bridge_invariant s"
    unfolding assms(1) by (intro invariant_run_events invariant_new_bridge)
  note eff = sendRPC_effect [OF assms(3)]
  have inv1: "bridge_invariant s1"
    unfolding eff(6) using inv by (rule invariant_sendRPC)
  let ?tm = "\<lparr>due = now s + timeout s, for_method = method\<rparr>"
  have tm: "timers s1 i = Some ?tm"
    using eff(4) by (simp add: timer_delay_in_range [OF assms(2)])
  have out: "pendingRequests s2 i = Some i \<and> timers s2 i = Some ?tm \<and> promises s2 i = Some Pending"
    unfolding assms(5)
    using inv1 eff(2,3,5) tm assms(4) by (intro outstanding_run) simp_all
  have early: "timer_fires i s2 = s2" if "now s2 < now s + timeout s"
    using out that by (intro timer_fires_early [where tm = ?tm]) simp_all
  have late: "pendingRequests (timer_fires i s2) i = None
            \<and> promises (timer_fires i s2) i = Some (Rejected (timeout_message i method (timeout s2)))
            \<and> settled (timer_fires i s2) =
                settled s2 @ [(i, Rejected (timeout_message i method (timeout s2)), now s2)]"
    if "now s + timeout s \<le> now s2"
    using out that by (simp add: timer_fires_def promises_settle)
  have dflt: "timeout s = 30000" if "\<forall>e \<in> set es0. \<forall>ms. e \<noteq> Configure ms"
    unfolding assms(1) using timeout_unconfigured [OF that] by (simp add: new_bridge_def)
  from out early late dflt show ?thesis by blast
qed

theorem timeout_rejects_after_window_witness:
  "timeout (run_events (new_bridge 0) []) < 2 ^ 31
   \<and> sendRPC (JStr ''undo'') [] (run_events (new_bridge 0) [])
     = (1, snd (sendRPC (JStr ''undo'') [] (new_bridge 0)))
   \<and> \<not> answers 1 (Tick 30000) \<and> Tick 30000 \<noteq> Fire 1
   \<and> pendingRequests (run_events (snd (sendRPC (JStr ''undo'') [] (new_bridge 0))) [Tick 30000]) 1
       = Some 1
   \<and> promises (timer_fires 1
         (run_events (snd (sendRPC (JStr ''undo'') [] (new_bridge 0))) [Tick 30000])) 1
       = Some (Rejected ''RPC request 1 (undo) timed out after 30000ms'')
   \<and> pendingRequests (timer_fires 1
         (run_events (snd (sendRPC (JStr ''undo'') [] (new_bridge 0))) [Tick 30000])) 1 = None
   \<and> now (run_events (snd (sendRPC (JStr ''undo'') [] (new_bridge 0))) [Tick 29999])
       < now (run_events (new_bridge 0) []) + timeout (run_events (new_bridge 0) [])
   \<and> timer_fires 1 (run_events (snd (sendRPC (JStr ''undo'') [] (new_bridge 0))) [Tick 29999])
       = run_events (snd (sendRPC (JStr ''undo'') [] (new_bridge 0))) [Tick 29999]
   \<and> timeout (run_events (new_bridge 0) []) = 30000"
proof -
  let ?s = "run_events (new_bridge 0) []"
  let ?s1 = "snd (sendRPC (JStr ''undo'') [] (new_bridge 0))"
  let ?s2 = "run_events ?s1 [Tick 30000]"
  let ?s2' = "run_events ?s1 [Tick 29999]"
  have h0: "timeout ?s < 2 ^ 31"
    by (simp add: run_events_def new_bridge_def)
  have h1: "sendRPC (JStr ''undo'') [] ?s = (1, ?s1)"
    by (simp add: run_events_def sendRPC_def Let_def new_bridge_def)
  have h2: "\<forall>e \<in> set [Tick 30000]. \<not> answers 1 e \<and> e \<noteq> Fire 1"
    by (simp add: answers_def)
  have h2': "\<forall>e \<in> set [Tick 29999]. \<not> answers 1 e \<and> e \<noteq> Fire 1"
    by (simp add: answers_def)
  have n: "now ?s + timeout ?s \<le> now ?s2"
    by (simp add: run_events_def sendRPC_def Let_def new_bridge_def)
  have n': "now ?s2' < now ?s + timeout ?s"
    by (simp add: run_events_def sendRPC_def Let_def new_bridge_def)
  have t: "timeout ?s2 = 30000"
    by (simp add: run_events_def sendRPC_def Let_def new_bridge_def)
  have m: "timeout_message 1 (JStr ''undo'') 30000
             = ''RPC request 1 (undo) timed out after 30000ms''"
    by (simp add: timeout_message_def nat_digits.simps digit_char_def)
  have u: "\<forall>e \<in> set ([] :: event list). \<forall>ms. e \<noteq> Configure ms"
    by simp
  note inst = timeout_rejects_after_window [OF refl h0 h1 h2 refl]
  note inst' = timeout_rejects_after_window [OF refl h0 h1 h2' refl]
  have a: "pendingRequests ?s2 1 = Some 1"
    by (rule inst [THEN conjunct1])
  note late = inst [THEN conjunct2, THEN conjunct2, THEN conjunct2, THEN conjunct2, THEN conjunct1,
                    THEN mp, OF n]
  have b: "promises (timer_fires 1 ?s2) 1
       = Some (Rejected ''RPC request 1 (undo) timed out after 30000ms'')"
    using late [THEN conjunct2, THEN conjunct1] unfolding t m .
  have c: "pendingRequests (timer_fires 1 ?s2) 1 = None"
    by (rule late [THEN conjunct1])
  have d: "timer_fires 1 ?s2' = ?s2'"
    by (rule inst' [THEN conjunct2, THEN conjunct2, THEN conjunct2, THEN conjunct1, THEN mp, OF n'])
  have e: "timeout ?s = 30000"
    by (rule inst [THEN conjunct2, THEN conjunct2, THEN conjunct2, THEN conjunct2, THEN conjunct2,
                   THEN mp, OF u])
  have h3: "\<not> answers 1 (Tick 30000)" "Tick 30000 \<noteq> Fire 1"
    by (simp_all add: answers_def)
  from h0 h1 h3 a b c n' d e show ?thesis
    by (intro conjI)
qed

lemma bogus_run:
  "run example_engine example_app (JStr ''bogus'') []
     = Returns [(''success'', JBool False), (''errorCode'', num_of_int 2),
                (''output'', JStr ''Unknown command: bogus'')]"
  by code_simp

text \<open>
  Claim C3, at a command that was delivered, ran and failed. The worker answers the request
  for the unknown command \<open>bogus\<close> with a response whose \<open>success\<close> is that of the
  command, false, and whose \<open>result\<close> is the object that \<open>run\<close> returned. The director
  rejects the promise with the message \<open>Unknown error\<close>, and the object is lost; the address
  handler of the director then reports the code 99, as it does for a timeout.
\<close>

theorem failed_command_is_rejected:
  "worker_on_message example_engine example_app
       (Some (hd (outbox (snd (sendRPC (JStr ''bogus'') [] (new_bridge 0))))))
     = Some \<lparr>m_type = JStr ''rpc-response'', m_id = num_of_int 1, m_method = JUndefined,
             m_params = [], m_success = JBool False,
             m_result = PObj [(''success'', JBool False), (''errorCode'', num_of_int 2),
                              (''output'', JStr ''Unknown command: bogus'')],
             m_error = JUndefined\<rparr>
   \<and> promises (director_on_message
          (worker_on_message example_engine example_app
             (Some (hd (outbox (snd (sendRPC (JStr ''bogus'') [] (new_bridge 0)))))))
          (snd (sendRPC (JStr ''bogus'') [] (new_bridge 0)))) 1
     = Some (Rejected ''Unknown error'')
   \<and> address_reply example_engine (Rejected ''Unknown error'')
     = Some [(''success'', JBool False), (''errorCode'', num_of_int 99),
             (''output'', JStr ''RPC Error: Unknown error'')]"
proof -
  have w: "worker_on_message example_engine example_app
       (Some (hd (outbox (snd (sendRPC (JStr ''bogus'') [] (new_bridge 0))))))
     = Some \<lparr>m_type = JStr ''rpc-response'', m_id = num_of_int 1, m_method = JUndefined,
             m_params = [], m_success = JBool False,
             m_result = PObj [(''success'', JBool False), (''errorCode'', num_of_int 2),
                              (''output'', JStr ''Unknown command: bogus'')],
             m_error = JUndefined\<rparr>"
    by (simp add: worker_on_message_def sendRPC_def Let_def new_bridge_def bogus_run
          get_prop_def num_of_int_def)
  have p: "promises (director_on_message
          (worker_on_message example_engine example_app
             (Some (hd (outbox (snd (sendRPC (JStr ''bogus'') [] (new_bridge 0)))))))
          (snd (sendRPC (JStr ''bogus'') [] (new_bridge 0)))) 1
     = Some (Rejected ''Unknown error'')"
    unfolding w by (simp add: bridge_defs or_else_def)
  have r: "address_reply example_engine (Rejected ''Unknown error'')
     = Some [(''success'', JBool False), (''errorCode'', num_of_int 99),
             (''output'', JStr ''RPC Error: Unknown error'')]"
    by (simp add: address_reply_def)
  from w p r show ?thesis by (intro conjI)
qed

section \<open>Properties of script execution\<close>

lemma execute_rexx_missing:
  assumes "starts_with ''execute-rexx'' c" "\<not> truthy (script_content c ps)"
  shows "address_minipaint_handler eng editor w (JStr c) ps =
     Some (Returns [(''success'', JBool False), (''errorCode'', num_of_int 200),
                    (''output'', JStr ''script parameter required for execute-rexx'')])"
  using assms by (simp add: address_minipaint_handler_def Let_def)

lemma executeRexxScript_parse_failure:
  assumes "window_RexxInterpreter w = Some (Returns interp)" "i_addressTargets interp"
    "window_parse w = Some parse" "parse script = Throws (Thrown m)"
  shows "executeRexxScript eng editor w script options =
     Settled [(''success'', JBool False),
              (''output'', JStr (trim (CHR 0x0A # ''Parse error: '' @ to_string m))),
              (''result'', JStr []),
              (''returnCode'', num_of_int 2)]
             (Some (case i_variables interp of None \<Rightarrow> [] | Some vs \<Rightarrow> vs))"
  using assms
  by (simp add: executeRexxScript_def parse_failed_def script_finished_def Let_def num_of_int_def)

lemma execute_rexx_parse_failure:
  assumes "starts_with ''execute-rexx'' c" "truthy (script_content c ps)"
    "window_RexxInterpreter w = Some (Returns interp)" "i_addressTargets interp"
    "window_parse w = Some parse" "parse (script_content c ps) = Throws (Thrown m)"
  shows "address_minipaint_handler eng editor w (JStr c) ps =
           Some (Returns [(''success'', JBool False), (''errorCode'', num_of_int 2),
                          (''output'', JStr (trim (CHR 0x0A # ''Parse error: '' @ to_string m))),
                          (''result'', JStr [])])"
  using assms(1,2)
  by (simp add: address_minipaint_handler_def Let_def get_prop_def
        executeRexxScript_parse_failure [OF assms(3-6)])

text \<open>
  Claim C9, as the claim states it, fails for a script that the parser rejects: the code
  is 2, the return code of the script runner, and not 200 or above.
\<close>

theorem execute_rexx_parse_failure_code:
  "address_minipaint_handler example_engine example_editor example_rexx
       (JStr ''execute-rexx'') [(''script'', JStr ''SAY hello'')]
     = Some (Returns [(''success'', JBool False), (''errorCode'', num_of_int 2),
                      (''output'', JStr ''Parse error: bad''), (''result'', JStr [])])
   \<and> \<not> (200 \<le> (2::int))"
  by code_simp

text \<open>
  Claim C9, amended. An \<open>execute-rexx\<close> command from which no script can be taken, neither
  from the parameter \<open>script\<close> nor from the command string, is answered with the code 200.
  When the interpreter is there and the parser rejects the script with an error that has a
  message, the answer has \<open>success\<close> false, the code 2 and the output \<open>Parse error: \<close>
  followed by the message.
\<close>

theorem execute_rexx_failures:
  "(starts_with ''execute-rexx'' c \<and> \<not> truthy (script_content c ps)
     \<longrightarrow> address_minipaint_handler eng editor w (JStr c) ps =
           Some (Returns [(''success'', JBool False), (''errorCode'', num_of_int 200),
                          (''output'', JStr ''script parameter required for execute-rexx'')]))
   \<and> (starts_with ''execute-rexx'' c \<and> truthy (script_content c ps)
       \<and> window_RexxInterpreter w = Some (Returns interp) \<and> i_addressTargets interp
       \<and> window_parse w = Some parse \<and> parse (script_content c ps) = Throws (Thrown m)
     \<longrightarrow> address_minipaint_handler eng editor w (JStr c) ps =
           Some (Returns [(''success'', JBool False), (''errorCode'', num_of_int 2),
                          (''output'', JStr (trim (CHR 0x0A # ''Parse error: '' @ to_string m))),
                          (''result'', JStr [])]))"
  using execute_rexx_missing [of c ps eng editor w]
    execute_rexx_parse_failure [of c ps w interp parse m eng editor]
  by blast

theorem execute_rexx_failures_witness:
  "(starts_with ''execute-rexx'' ''execute-rexx'' \<and> \<not> truthy (script_content ''execute-rexx'' []))
   \<and> address_minipaint_handler example_engine example_editor example_rexx (JStr ''execute-rexx'') []
       = Some (Returns [(''success'', JBool False), (''errorCode'', num_of_int 200),
                        (''output'', JStr ''script parameter required for execute-rexx'')])
   \<and> (starts_with ''execute-rexx'' ''execute-rexx''
       \<and> truthy (script_content ''execute-rexx'' [(''script'', JStr ''SAY hello'')])
       \<and> window_RexxInterpreter example_rexx = Some (Returns example_interpreter)
       \<and> i_addressTargets example_interpreter
       \<and> window_parse example_rexx = Some rejecting_parse
       \<and> rejecting_parse (script_content ''execute-rexx'' [(''script'', JStr ''SAY hello'')])
           = Throws (Thrown (JStr ''bad'')))
   \<and> address_minipaint_handler example_engine example_editor example_rexx (JStr ''execute-rexx'')
         [(''script'', JStr ''SAY hello'')]
       = Some (Returns [(''success'', JBool False), (''errorCode'', num_of_int 2),
                        (''output'', JStr (trim (CHR 0x0A # ''Parse error: '' @ to_string (JStr ''bad'')))),
                        (''result'', JStr [])])"
proof -
  have h1: "starts_with ''execute-rexx'' ''execute-rexx'' \<and> \<not> truthy (script_content ''execute-rexx'' [])"
    by (simp add: starts_with_def script_content_def get_prop_def or_else_def starts_with_def)
  have h2: "starts_with ''execute-rexx'' ''execute-rexx''
       \<and> truthy (script_content ''execute-rexx'' [(''script'', JStr ''SAY hello'')])
       \<and> window_RexxInterpreter example_rexx = Some (Returns example_interpreter)
       \<and> i_addressTargets example_interpreter
       \<and> window_parse example_rexx = Some rejecting_parse
       \<and> rejecting_parse (script_content ''execute-rexx'' [(''script'', JStr ''SAY hello'')])
           = Throws (Thrown (JStr ''bad''))"
    by (simp add: starts_with_def script_content_def get_prop_def or_else_def example_rexx_def
          example_interpreter_def rejecting_parse_def)
  note a = execute_rexx_failures
             [where c = "''execute-rexx''" and ps = "[]" and eng = example_engine
                and editor = example_editor and w = example_rexx,
              THEN conjunct1, THEN mp, OF h1]
  note b = execute_rexx_failures
             [where c = "''execute-rexx''" and ps = "[(''script'', JStr ''SAY hello'')]"
                and w = example_rexx and interp = example_interpreter
                and parse = rejecting_parse and m = "JStr ''bad''"
                and eng = example_engine and editor = example_editor,
              THEN conjunct2, THEN mp, OF h2]
  from h1 a h2 b show ?thesis by blast
qed

end
